theory Spec2Isabelle
  imports Complex_Main "HOL-Library.Multiset" "HOL-Library.Char_ord" "HOL-Library.List_Lexorder"
begin

section \<open>Tables\<close>

text \<open>
  The notebook works on pandas tables. A cell is a missing value (\<open>NaN\<close>), a number or a
  string. A table has an ordered list of column names, the columns whose dtype is
  \<open>category\<close> (each with its categories), and its rows in order; every row carries its
  index label and one cell per column.
\<close>

datatype cell = NaN | is_Num: Num (num_of: real) | is_Str: Str (str_of: string)

datatype error = NameError | KeyError | AttributeError | ValueError | FileNotFoundError

record frame =
  columns :: "string list"
  categorical :: "(string \<times> cell list) list"
  rows :: "(nat \<times> cell list) list"

type_synonym series = "(nat \<times> cell) list"

text \<open>What \<open>pd.read_csv\<close> returns: a fresh \<open>0..n-1\<close> index and no categorical column.\<close>

type_synonym csv = "string list \<times> cell list list"

definition read_csv :: "csv \<Rightarrow> frame" where
  "read_csv f = \<lparr>columns = fst f, categorical = [], rows = zip [0..<length (snd f)] (snd f)\<rparr>"

definition wf_frame :: "frame \<Rightarrow> bool" where
  "wf_frame f = list_all (\<lambda>r. length (snd r) = length (columns f)) (rows f)"

fun index_of :: "'a \<Rightarrow> 'a list \<Rightarrow> nat option" where
  "index_of c [] = None"
| "index_of c (d # ds) = (if c = d then Some 0 else map_option Suc (index_of c ds))"

definition and_then :: "error + 'a \<Rightarrow> ('a \<Rightarrow> error + 'b) \<Rightarrow> error + 'b" where
  "and_then r k = (case r of Inl e \<Rightarrow> Inl e | Inr v \<Rightarrow> k v)"

text \<open>\<open>f.c\<close>: the column as a series; an unknown attribute raises \<open>AttributeError\<close>.\<close>

definition get_column :: "string \<Rightarrow> frame \<Rightarrow> error + series" where
  "get_column c f =
     (case index_of c (columns f) of
        None \<Rightarrow> Inl AttributeError
      | Some j \<Rightarrow> Inr (map (\<lambda>r. (fst r, snd r ! j)) (rows f)))"

text \<open>
  \<open>f[c] = values\<close>, the values taken row by row (every assignment of the notebook
  assigns values computed from \<open>f\<close> itself, so the index labels agree): an existing
  column is overwritten in place and a new one is appended on the right; values of
  another length than the table raise \<open>ValueError\<close>. The column's dtype is that of the
  new values, which is never \<open>category\<close> in the notebook.
\<close>

definition set_column :: "string \<Rightarrow> cell list \<Rightarrow> frame \<Rightarrow> error + frame" where
  "set_column c vs f =
     (if length vs \<noteq> length (rows f) then Inl ValueError
      else case index_of c (columns f) of
        None \<Rightarrow> Inr (f\<lparr>columns := columns f @ [c],
                   rows := map (\<lambda>p. (fst (fst p), snd (fst p) @ [snd p])) (zip (rows f) vs)\<rparr>)
      | Some j \<Rightarrow> Inr (f\<lparr>categorical := filter (\<lambda>p. fst p \<noteq> c) (categorical f),
                     rows := map (\<lambda>p. (fst (fst p), (snd (fst p))[j := snd p])) (zip (rows f) vs)\<rparr>))"

text \<open>\<open>f.drop(columns=cs)\<close>: a label that is not a column raises \<open>KeyError\<close>.\<close>

definition keep_cells :: "string list \<Rightarrow> string list \<Rightarrow> cell list \<Rightarrow> cell list" where
  "keep_cells cs cols r = map snd (filter (\<lambda>p. fst p \<notin> set cs) (zip cols r))"

definition drop_columns :: "string list \<Rightarrow> frame \<Rightarrow> error + frame" where
  "drop_columns cs f =
     (if list_all (\<lambda>c. c \<in> set (columns f)) cs
      then Inr \<lparr>columns = filter (\<lambda>c. c \<notin> set cs) (columns f),
                categorical = filter (\<lambda>p. fst p \<notin> set cs) (categorical f),
                rows = map (\<lambda>r. (fst r, keep_cells cs (columns f) (snd r))) (rows f)\<rparr>
      else Inl KeyError)"

text \<open>\<open>f.dropna()\<close>: keeps the rows with no missing cell, in any column.\<close>

definition dropna :: "frame \<Rightarrow> frame" where
  "dropna f = f\<lparr>rows := filter (\<lambda>r. list_all (\<lambda>v. v \<noteq> NaN) (snd r)) (rows f)\<rparr>"

text \<open>\<open>f[f.c.isnull()]\<close>: keeps the rows whose cell in column \<open>c\<close> is missing.\<close>

definition where_isnull :: "string \<Rightarrow> frame \<Rightarrow> error + frame" where
  "where_isnull c f =
     (case index_of c (columns f) of
        None \<Rightarrow> Inl AttributeError
      | Some j \<Rightarrow> Inr (f\<lparr>rows := filter (\<lambda>r. snd r ! j = NaN) (rows f)\<rparr>))"

text \<open>\<open>f.head(n)\<close> and \<open>f.to_csv(name, index=False)\<close>.\<close>

definition head :: "nat \<Rightarrow> frame \<Rightarrow> frame" where
  "head n f = f\<lparr>rows := take n (rows f)\<rparr>"

definition to_csv :: "frame \<Rightarrow> csv" where
  "to_csv f = (columns f, map snd (rows f))"

text \<open>
  \<open>pd.merge(l, r, on=key, how='left')\<close>: every row of \<open>l\<close>, in order, is paired with each
  row of \<open>r\<close> that has the same key (in the order of \<open>r\<close>), or once with missing values
  when no row of \<open>r\<close> has it. The key column is kept once; another column name the two
  tables share gets the suffixes \<open>_x\<close> and \<open>_y\<close>. The result has a fresh index.
\<close>

definition with_suffix :: "string \<Rightarrow> string \<Rightarrow> string list \<Rightarrow> string \<Rightarrow> string" where
  "with_suffix key sfx other c = (if c \<noteq> key \<and> c \<in> set other then c @ sfx else c)"

definition without :: "nat \<Rightarrow> 'a list \<Rightarrow> 'a list" where
  "without j xs = take j xs @ drop (Suc j) xs"

definition merge_row :: "nat \<Rightarrow> nat \<Rightarrow> frame \<Rightarrow> cell list \<Rightarrow> cell list list" where
  "merge_row jl jr r lc =
     (let ms = filter (\<lambda>rc. rc ! jr = lc ! jl) (map snd (rows r)) in
      if ms = [] then [lc @ replicate (length (columns r) - 1) NaN]
      else map (\<lambda>rc. lc @ without jr rc) ms)"

definition pd_merge_left :: "string \<Rightarrow> frame \<Rightarrow> frame \<Rightarrow> error + frame" where
  "pd_merge_left key l r =
     (case index_of key (columns l) of
        None \<Rightarrow> Inl KeyError
      | Some jl \<Rightarrow>
         (case index_of key (columns r) of
            None \<Rightarrow> Inl KeyError
          | Some jr \<Rightarrow>
             (let joined = concat (map (\<lambda>lr. merge_row jl jr r (snd lr)) (rows l)) in
              Inr \<lparr>columns = map (with_suffix key ''_x'' (columns r)) (columns l)
                              @ without jr (map (with_suffix key ''_y'' (columns l)) (columns r)),
                    categorical =
                      map (\<lambda>p. (with_suffix key ''_x'' (columns r) (fst p), snd p)) (categorical l)
                      @ map (\<lambda>p. (with_suffix key ''_y'' (columns l) (fst p), snd p))
                          (filter (\<lambda>p. fst p \<noteq> key) (categorical r)),
                    rows = zip [0..<length joined] joined\<rparr>)))"

text \<open>\<open>s.replace(d)\<close> on one value: a value that is no key of \<open>d\<close> stays as it is.\<close>

definition replace_value :: "(cell \<times> cell) list \<Rightarrow> cell \<Rightarrow> cell" where
  "replace_value d v = (case map_of d v of None \<Rightarrow> v | Some w \<Rightarrow> w)"

text \<open>
  \<open>s.astype('category')\<close> fixes the categories of a column: its distinct values that are
  not missing, sorted when they are all strings or all numbers and in the order of
  first appearance otherwise. \<open>s.cat.codes\<close> is the position of each value among the
  categories, \<open>-1\<close> for a missing value; the \<open>.cat\<close> accessor of a column that is not
  categorical raises \<open>AttributeError\<close>.
\<close>

definition categories :: "cell list \<Rightarrow> cell list" where
  "categories vs =
     (let ks = filter (\<lambda>v. v \<noteq> NaN) vs in
      if list_all is_Str ks then map Str (sort (remdups (map str_of ks)))
      else if list_all is_Num ks then map Num (sort (remdups (map num_of ks)))
      else rev (remdups (rev ks)))"

definition astype_category :: "string \<Rightarrow> frame \<Rightarrow> error + frame" where
  "astype_category c f =
     (case get_column c f of
        Inl e \<Rightarrow> Inl e
      | Inr s \<Rightarrow> Inr (f\<lparr>categorical :=
                        (c, categories (map snd s)) # filter (\<lambda>p. fst p \<noteq> c) (categorical f)\<rparr>))"

definition cat_code :: "cell list \<Rightarrow> cell \<Rightarrow> cell" where
  "cat_code cats v = (case index_of v cats of None \<Rightarrow> Num (- 1) | Some j \<Rightarrow> Num (of_nat j))"

definition cat_codes :: "string \<Rightarrow> frame \<Rightarrow> error + cell list" where
  "cat_codes c f =
     (case get_column c f of
        Inl e \<Rightarrow> Inl e
      | Inr s \<Rightarrow>
         (case map_of (categorical f) c of
            None \<Rightarrow> Inl AttributeError
          | Some cats \<Rightarrow> Inr (map (\<lambda>p. cat_code cats (snd p)) s)))"

text \<open>
  \<open>f.sort_values(by=c, ascending=False)\<close>. The notebook does not pass \<open>kind\<close>, so the order
  comes from NumPy's default \<open>quicksort\<close>, which is not stable; \<open>argsort\<close> stands for it:
  given the keys that are not missing, it lists their positions in the order the sort
  arranges them. Rows with a missing key come last, in their original order.
\<close>

definition sort_values_desc :: "(cell list \<Rightarrow> nat list) \<Rightarrow> string \<Rightarrow> frame \<Rightarrow> error + frame" where
  "sort_values_desc argsort c f =
     (case index_of c (columns f) of
        None \<Rightarrow> Inl KeyError
      | Some j \<Rightarrow>
         (let keys = map (\<lambda>r. snd r ! j) (rows f);
              present = filter (\<lambda>i. keys ! i \<noteq> NaN) [0..<length keys];
              missing = filter (\<lambda>i. keys ! i = NaN) [0..<length keys];
              order = map (\<lambda>i. present ! i) (argsort (map (\<lambda>i. keys ! i) present)) @ missing
          in Inr (f\<lparr>rows := map (\<lambda>i. rows f ! i) order\<rparr>)))"

section \<open>The classifiers and metrics of scikit-learn\<close>

text \<open>
  An estimator is kept as what it was made from: the classifier with its
  hyperparameters and, once fitted, the data passed to \<open>fit\<close>, which checks that there is
  one label per row. What an estimator computes is the library's part: \<open>lib\<close> holds its
  functions, each of which may raise. \<open>permutation n\<close> is the shuffle of \<open>0..n-1\<close> the
  splitter draws from the random state.
\<close>

datatype classifier =
    LogisticRegression real string nat
  | DecisionTreeClassifier nat
  | RandomForestClassifier nat nat

record estimator =
  params :: classifier
  fitted :: "(frame \<times> series) option"

definition new_estimator :: "classifier \<Rightarrow> estimator" where
  "new_estimator k = \<lparr>params = k, fitted = None\<rparr>"

definition fit :: "estimator \<Rightarrow> frame \<Rightarrow> series \<Rightarrow> error + estimator" where
  "fit e X y =
     (if length (rows X) \<noteq> length y then Inl ValueError
      else Inr (e\<lparr>fitted := Some (X, y)\<rparr>))"

record lib =
  predict :: "estimator \<Rightarrow> frame \<Rightarrow> error + real list"
  predict_proba :: "estimator \<Rightarrow> frame \<Rightarrow> error + real list"
  feature_importances :: "estimator \<Rightarrow> error + real list"
  coef :: "estimator \<Rightarrow> error + real list"
  argsort :: "cell list \<Rightarrow> nat list"
  permutation :: "nat \<Rightarrow> nat list"

text \<open>
  \<open>train_test_split(X, y, test_size=0.25)\<close>: the test partition gets \<open>ceil(0.25 * n)\<close> rows
  and the training partition the other \<open>n - ceil(0.25 * n)\<close>; an empty training partition
  raises \<open>ValueError\<close>. The first \<open>n_test\<close> positions of the shuffle are the test rows, the
  next \<open>n_train\<close> the training rows.
\<close>

definition take_rows :: "nat list \<Rightarrow> 'a list \<Rightarrow> 'a list" where
  "take_rows ix xs = map (\<lambda>i. xs ! i) ix"

definition train_test_split ::
  "nat list \<Rightarrow> frame \<Rightarrow> series \<Rightarrow> error + (frame \<times> frame \<times> series \<times> series)" where
  "train_test_split perm X y =
     (let n = length (rows X); n_test = (n + 3) div 4; n_train = n - n_test in
      if length y \<noteq> n then Inl ValueError
      else if n_train = 0 then Inl ValueError
      else
        (let ind_test = take n_test perm; ind_train = take n_train (drop n_test perm) in
         Inr (X\<lparr>rows := take_rows ind_train (rows X)\<rparr>,
              X\<lparr>rows := take_rows ind_test (rows X)\<rparr>,
              take_rows ind_train y,
              take_rows ind_test y)))"

text \<open>
  \<open>confusion_matrix(y_true, y_pred)\<close>: the labels are the sorted distinct values of both
  vectors; the entry in row \<open>a\<close> and column \<open>b\<close> counts the samples whose true label is \<open>a\<close>
  and whose predicted label is \<open>b\<close>. \<open>accuracy_score\<close> is the mean of the indicator
  \<open>y_true == y_pred\<close> (the exact quotient; the library rounds it to a double), and is
  \<open>nan\<close> for empty vectors. Both raise \<open>ValueError\<close> on vectors of different length.
\<close>

definition confusion_matrix :: "real list \<Rightarrow> real list \<Rightarrow> error + nat list list" where
  "confusion_matrix yt yp =
     (if length yt \<noteq> length yp then Inl ValueError
      else
        (let labels = sort (remdups (yt @ yp)) in
         Inr (map (\<lambda>a. map (\<lambda>b. length (filter (\<lambda>tp. fst tp = a \<and> snd tp = b) (zip yt yp)))
                          labels) labels)))"

definition accuracy_score :: "real list \<Rightarrow> real list \<Rightarrow> error + cell" where
  "accuracy_score yt yp =
     (if length yt \<noteq> length yp then Inl ValueError
      else if yt = [] then Inr NaN
      else Inr (Num (sum_list (map (\<lambda>tp. if fst tp = snd tp then 1 else 0) (zip yt yp))
                     / of_nat (length yt))))"

text \<open>The label vector the metrics and classifiers read from a series: numbers only.\<close>

definition label_values :: "series \<Rightarrow> error + real list" where
  "label_values y =
     (if list_all (\<lambda>p. is_Num (snd p)) y then Inr (map (\<lambda>p. num_of (snd p)) y)
      else Inl ValueError)"

section \<open>The notebook\<close>

text \<open>
  The kernel's state: the variables bound so far, the files on disk and what was printed.
  A statement either raises or returns the new state. A cell is a list of statements; a
  cell that raises stops at that statement and keeps the bindings made before it, and
  the session goes on with the next cell.
\<close>

datatype pyval =
    Frame frame
  | Series series
  | Estimator estimator
  | Floats "real list"
  | Strings "string list"
  | Matrix "nat list list"

record notebook =
  env :: "string \<Rightarrow> pyval option"
  files :: "string \<Rightarrow> csv option"
  stdout :: "cell list"

type_synonym stmt = "notebook \<Rightarrow> error + notebook"

definition fresh :: "(string \<Rightarrow> csv option) \<Rightarrow> notebook" where
  "fresh fs = \<lparr>env = (\<lambda>v. None), files = fs, stdout = []\<rparr>"

fun exec :: "stmt list \<Rightarrow> notebook \<Rightarrow> notebook \<times> error option" where
  "exec [] st = (st, None)"
| "exec (s # ss) st = (case s st of Inl e \<Rightarrow> (st, Some e) | Inr st' \<Rightarrow> exec ss st')"

definition run_cells :: "stmt list list \<Rightarrow> notebook \<Rightarrow> notebook" where
  "run_cells cells st = foldl (\<lambda>s c. fst (exec c s)) st cells"

definition get_frame :: "notebook \<Rightarrow> string \<Rightarrow> error + frame" where
  "get_frame st v =
     (case env st v of None \<Rightarrow> Inl NameError | Some (Frame f) \<Rightarrow> Inr f | Some _ \<Rightarrow> Inl AttributeError)"

definition get_series :: "notebook \<Rightarrow> string \<Rightarrow> error + series" where
  "get_series st v =
     (case env st v of None \<Rightarrow> Inl NameError | Some (Series s) \<Rightarrow> Inr s | Some _ \<Rightarrow> Inl AttributeError)"

definition get_estimator :: "notebook \<Rightarrow> string \<Rightarrow> error + estimator" where
  "get_estimator st v =
     (case env st v of None \<Rightarrow> Inl NameError | Some (Estimator e) \<Rightarrow> Inr e | Some _ \<Rightarrow> Inl AttributeError)"

definition get_floats :: "notebook \<Rightarrow> string \<Rightarrow> error + real list" where
  "get_floats st v =
     (case env st v of None \<Rightarrow> Inl NameError | Some (Floats x) \<Rightarrow> Inr x | Some _ \<Rightarrow> Inl AttributeError)"

definition open_csv :: "notebook \<Rightarrow> string \<Rightarrow> error + csv" where
  "open_csv st name = (case files st name of None \<Rightarrow> Inl FileNotFoundError | Some c \<Rightarrow> Inr c)"

definition assign :: "string \<Rightarrow> (notebook \<Rightarrow> error + pyval) \<Rightarrow> stmt" where
  "assign v rhs st = and_then (rhs st) (\<lambda>x. Inr (st\<lparr>env := (env st)(v \<mapsto> x)\<rparr>))"

text \<open>\<open>v.fit(X, y)\<close> fits the estimator bound to \<open>v\<close> in place.\<close>

definition fit_stmt :: "string \<Rightarrow> string \<Rightarrow> string \<Rightarrow> stmt" where
  "fit_stmt v xv yv =
     assign v (\<lambda>st. and_then (get_estimator st v) (\<lambda>e.
                     and_then (get_frame st xv) (\<lambda>x.
                     and_then (get_series st yv) (\<lambda>y.
                     and_then (fit e x y) (\<lambda>e'. Inr (Estimator e'))))))"

subsection \<open>Reading, merging and encoding\<close>

definition cell4 :: "stmt list" where
  "cell4 = [assign ''features'' (\<lambda>st.
       and_then (open_csv st ''data/planes_features.csv'') (\<lambda>c. Inr (Frame (read_csv c))))]"

definition cell5 :: "stmt list" where
  "cell5 = [assign ''labels'' (\<lambda>st.
       and_then (open_csv st ''data/train.csv'') (\<lambda>c. Inr (Frame (read_csv c))))]"

text \<open>\<open>adshex = pd.merge(features, labels, on='adshex', how='left')\<close>\<close>

definition cell8 :: "stmt list" where
  "cell8 = [assign ''adshex'' (\<lambda>st.
       and_then (get_frame st ''features'') (\<lambda>f.
       and_then (get_frame st ''labels'') (\<lambda>l.
       and_then (pd_merge_left ''adshex'' f l) (\<lambda>m. Inr (Frame m)))))]"

text \<open>\<open>adshex['label'] = adshex.label.replace({'surveil': 1, 'other': 0})\<close>\<close>

definition label_codes :: "(cell \<times> cell) list" where
  "label_codes = [(Str ''surveil'', Num 1), (Str ''other'', Num 0)]"

definition cell14 :: "stmt list" where
  "cell14 = [assign ''adshex'' (\<lambda>st.
       and_then (get_frame st ''adshex'') (\<lambda>a.
       and_then (get_column ''label'' a) (\<lambda>s.
       and_then (set_column ''label'' (map (\<lambda>p. replace_value label_codes (snd p)) s) a) (\<lambda>a'.
       Inr (Frame a')))))]"

text \<open>\<open>df.type = df.type.astype('category')\<close>: the table named is \<open>df\<close>, not \<open>adshex\<close>.\<close>

definition cell19 :: "stmt list" where
  "cell19 = [assign ''df'' (\<lambda>st.
       and_then (get_frame st ''df'') (\<lambda>d.
       and_then (astype_category ''type'' d) (\<lambda>d'. Inr (Frame d'))))]"

text \<open>\<open>adshex['type_code'] = adshex.type.cat.codes\<close>\<close>

definition cell21 :: "stmt list" where
  "cell21 = [assign ''adshex'' (\<lambda>st.
       and_then (get_frame st ''adshex'') (\<lambda>a.
       and_then (cat_codes ''type'' a) (\<lambda>cs.
       and_then (set_column ''type_code'' cs a) (\<lambda>a'. Inr (Frame a')))))]"

subsection \<open>The training table and its split\<close>

text \<open>\<open>train_df = adshex.dropna()\<close>\<close>

definition cell26 :: "stmt list" where
  "cell26 = [assign ''train_df'' (\<lambda>st.
       and_then (get_frame st ''adshex'') (\<lambda>a. Inr (Frame (dropna a))))]"

text \<open>\<open>train_df = train_df.drop(['adshex', 'type'], axis=1)\<close>, which the notebook has twice.\<close>

definition cell28 :: "stmt list" where
  "cell28 = [assign ''train_df'' (\<lambda>st.
       and_then (get_frame st ''train_df'') (\<lambda>t.
       and_then (drop_columns [''adshex'', ''type''] t) (\<lambda>t'. Inr (Frame t'))))]"

definition cell32 :: "stmt list" where
  "cell32 = cell28"

text \<open>\<open>X = train_df.drop(columns='label')\<close> and \<open>y = train_df.label\<close>\<close>

definition cell34 :: "stmt list" where
  "cell34 =
     [assign ''X'' (\<lambda>st.
        and_then (get_frame st ''train_df'') (\<lambda>t.
        and_then (drop_columns [''label''] t) (\<lambda>x. Inr (Frame x)))),
      assign ''y'' (\<lambda>st.
        and_then (get_frame st ''train_df'') (\<lambda>t.
        and_then (get_column ''label'' t) (\<lambda>s. Inr (Series s))))]"

text \<open>\<open>X_train, X_test, y_train, y_test = train_test_split(X, y, test_size = 0.25)\<close>\<close>

definition cell38 :: "lib \<Rightarrow> stmt list" where
  "cell38 L = [\<lambda>st.
       and_then (get_frame st ''X'') (\<lambda>x.
       and_then (get_series st ''y'') (\<lambda>y.
       and_then (train_test_split (permutation L (length (rows x))) x y) (\<lambda>r.
       Inr (st\<lparr>env := (env st)(''X_train'' \<mapsto> Frame (fst r),
                                  ''X_test'' \<mapsto> Frame (fst (snd r)),
                                  ''y_train'' \<mapsto> Series (fst (snd (snd r))),
                                  ''y_test'' \<mapsto> Series (snd (snd (snd r))))\<rparr>))))]"

subsection \<open>The three classifiers\<close>

text \<open>
  \<open>clf = LogisticRegression(C=1e9, solver='lbfgs', max_iter=4000)\<close> and \<open>clf.fit(X, y)\<close>;
  then the table of coefficients, and the confusion matrix on the test partition.
\<close>

definition cell44 :: "stmt list" where
  "cell44 =
     [assign ''clf'' (\<lambda>st. Inr (Estimator (new_estimator (LogisticRegression 1000000000 ''lbfgs'' 4000)))),
      fit_stmt ''clf'' ''X'' ''y'']"

definition cell45 :: "lib \<Rightarrow> stmt list" where
  "cell45 L =
     [assign ''feature_names'' (\<lambda>st.
        and_then (get_frame st ''X'') (\<lambda>x. Inr (Strings (columns x)))),
      assign ''coefficients'' (\<lambda>st.
        and_then (get_estimator st ''clf'') (\<lambda>e.
        and_then (coef L e) (\<lambda>c. Inr (Floats c))))]"

definition cell49 :: "lib \<Rightarrow> stmt list" where
  "cell49 L =
     [assign ''y_true'' (\<lambda>st. and_then (get_series st ''y_test'') (\<lambda>s. Inr (Series s))),
      assign ''y_pred'' (\<lambda>st.
        and_then (get_estimator st ''clf'') (\<lambda>e.
        and_then (get_frame st ''X_test'') (\<lambda>x.
        and_then (predict L e x) (\<lambda>p. Inr (Floats p))))),
      assign ''matrix'' (\<lambda>st.
        and_then (get_series st ''y_true'') (\<lambda>s.
        and_then (get_floats st ''y_pred'') (\<lambda>p.
        and_then (label_values s) (\<lambda>t.
        and_then (confusion_matrix t p) (\<lambda>m. Inr (Matrix m))))))]"

text \<open>\<open>clf = tree.DecisionTreeClassifier(max_depth=5)\<close> and \<open>clf = clf.fit(X_train, y_train)\<close>\<close>

definition cell53 :: "stmt list" where
  "cell53 =
     [assign ''clf'' (\<lambda>st. Inr (Estimator (new_estimator (DecisionTreeClassifier 5)))),
      fit_stmt ''clf'' ''X_train'' ''y_train'']"

text \<open>\<open>feature_names = X.columns\<close> and \<open>importances = clf.feature_importances_\<close>\<close>

definition cell56 :: "lib \<Rightarrow> stmt list" where
  "cell56 L =
     [assign ''feature_names'' (\<lambda>st.
        and_then (get_frame st ''X'') (\<lambda>x. Inr (Strings (columns x)))),
      assign ''importances'' (\<lambda>st.
        and_then (get_estimator st ''clf'') (\<lambda>e.
        and_then (feature_importances L e) (\<lambda>i. Inr (Floats i))))]"

definition cell60 :: "lib \<Rightarrow> stmt list" where
  "cell60 L = cell49 L"

text \<open>
  \<open>model = RandomForestClassifier(n_estimators = 100, max_depth=5)\<close> and
  \<open>model.fit(X_train, y_train)\<close>; the cell after it has the text of cell 56 again.
\<close>

definition cell64 :: "stmt list" where
  "cell64 =
     [assign ''model'' (\<lambda>st. Inr (Estimator (new_estimator (RandomForestClassifier 100 5)))),
      fit_stmt ''model'' ''X_train'' ''y_train'']"

definition cell66 :: "lib \<Rightarrow> stmt list" where
  "cell66 L = cell56 L"

text \<open>\<open>y_pred=model.predict(X_test)\<close> and \<open>print('Accuracy:', metrics.accuracy_score(y_test, y_pred))\<close>\<close>

definition cell70 :: "lib \<Rightarrow> stmt list" where
  "cell70 L =
     [assign ''y_pred'' (\<lambda>st.
        and_then (get_estimator st ''model'') (\<lambda>e.
        and_then (get_frame st ''X_test'') (\<lambda>x.
        and_then (predict L e x) (\<lambda>p. Inr (Floats p))))),
      \<lambda>st.
        and_then (get_series st ''y_test'') (\<lambda>s.
        and_then (get_floats st ''y_pred'') (\<lambda>p.
        and_then (label_values s) (\<lambda>t.
        and_then (accuracy_score t p) (\<lambda>a. Inr (st\<lparr>stdout := stdout st @ [a]\<rparr>)))))]"

subsection \<open>Scoring the unlabeled planes\<close>

text \<open>\<open>clf = RandomForestClassifier(n_estimators = 100, max_depth=5)\<close> and \<open>clf = clf.fit(X, y)\<close>\<close>

definition cell74 :: "stmt list" where
  "cell74 =
     [assign ''clf'' (\<lambda>st. Inr (Estimator (new_estimator (RandomForestClassifier 100 5)))),
      fit_stmt ''clf'' ''X'' ''y'']"

text \<open>\<open>new_df = adshex[adshex.label.isnull()]\<close>\<close>

definition cell76 :: "stmt list" where
  "cell76 = [assign ''new_df'' (\<lambda>st.
       and_then (get_frame st ''adshex'') (\<lambda>a.
       and_then (where_isnull ''label'' a) (\<lambda>n. Inr (Frame n))))]"

text \<open>\<open>X = new_df.drop(columns=['label', 'adshex', 'type'], axis=1)\<close>\<close>

definition cell81 :: "stmt list" where
  "cell81 = [assign ''X'' (\<lambda>st.
       and_then (get_frame st ''new_df'') (\<lambda>n.
       and_then (drop_columns [''label'', ''adshex'', ''type''] n) (\<lambda>x. Inr (Frame x))))]"

text \<open>\<open>X['predicted'] = clf.predict(X)\<close>, then \<open>X = X.drop(columns=['predicted'], axis=1)\<close>\<close>

definition cell83 :: "lib \<Rightarrow> stmt list" where
  "cell83 L = [assign ''X'' (\<lambda>st.
       and_then (get_estimator st ''clf'') (\<lambda>e.
       and_then (get_frame st ''X'') (\<lambda>x.
       and_then (predict L e x) (\<lambda>p.
       and_then (set_column ''predicted'' (map Num p) x) (\<lambda>x'. Inr (Frame x'))))))]"

definition cell89 :: "stmt list" where
  "cell89 = [assign ''X'' (\<lambda>st.
       and_then (get_frame st ''X'') (\<lambda>x.
       and_then (drop_columns [''predicted''] x) (\<lambda>x'. Inr (Frame x'))))]"

text \<open>\<open>X['predicted_prob'] = clf.predict_proba(X)[:,1]\<close>\<close>

definition cell90 :: "lib \<Rightarrow> stmt list" where
  "cell90 L = [assign ''X'' (\<lambda>st.
       and_then (get_estimator st ''clf'') (\<lambda>e.
       and_then (get_frame st ''X'') (\<lambda>x.
       and_then (predict_proba L e x) (\<lambda>p.
       and_then (set_column ''predicted_prob'' (map Num p) x) (\<lambda>x'. Inr (Frame x'))))))]"

text \<open>\<open>df = X.sort_values(by='predicted_prob', ascending=False).head(200)\<close>\<close>

definition cell93 :: "lib \<Rightarrow> stmt list" where
  "cell93 L = [assign ''df'' (\<lambda>st.
       and_then (get_frame st ''X'') (\<lambda>x.
       and_then (sort_values_desc (argsort L) ''predicted_prob'' x) (\<lambda>s.
       Inr (Frame (head 200 s)))))]"

text \<open>\<open>df.to_csv('spy_planes', index=False)\<close>, then \<open>df = pd.read_csv('spy_planes')\<close>\<close>

definition cell94 :: "stmt list" where
  "cell94 = [\<lambda>st.
       and_then (get_frame st ''df'') (\<lambda>d.
       Inr (st\<lparr>files := (files st)(''spy_planes'' \<mapsto> to_csv d)\<rparr>))]"

definition cell95 :: "stmt list" where
  "cell95 = [assign ''df'' (\<lambda>st.
       and_then (open_csv st ''spy_planes'') (\<lambda>c. Inr (Frame (read_csv c))))]"

text \<open>The code cells in the order of the notebook.\<close>

definition notebook_cells :: "lib \<Rightarrow> stmt list list" where
  "notebook_cells L =
     [cell4, cell5, cell8, cell14, cell19, cell21, cell26, cell28, cell32, cell34, cell38 L,
      cell44, cell45 L, cell45 L, cell49 L, cell53, cell56 L, cell60 L, cell64, cell66 L,
      cell70 L, cell74, cell76, cell81, cell83 L, cell89, cell90 L, cell93 L, cell94, cell95]"

text \<open>The cells between the making of the training table and the filter for unlabeled rows.\<close>

definition training_cells :: "lib \<Rightarrow> stmt list list" where
  "training_cells L =
     [cell28, cell32, cell34, cell38 L, cell44, cell45 L, cell45 L, cell49 L, cell53, cell56 L,
      cell60 L, cell64, cell66 L, cell70 L, cell74]"

section \<open>Properties named by the claims\<close>



text \<open>
  What the notebook may rely on from a fitted estimator: \<open>predict\<close> and the second column
  of \<open>predict_proba\<close> return one number for each row of the table they are given.
\<close>

definition one_per_row :: "(frame \<Rightarrow> error + real list) \<Rightarrow> bool" where
  "one_per_row predictor = (\<forall>x. \<exists>p. predictor x = Inr p \<and> length p = length (rows x))"

text \<open>The state after a list of cells when none of them raises, and \<open>None\<close> otherwise.\<close>

fun run_ok :: "stmt list list \<Rightarrow> notebook \<Rightarrow> notebook option" where
  "run_ok [] st = Some st"
| "run_ok (c # cs) st = (case exec c st of (st', None) \<Rightarrow> run_ok cs st' | (st', Some e) \<Rightarrow> None)"

text \<open>
  A state in which \<open>df\<close> is unbound and none of the tables read or merged so far has a
  categorical column: what a fresh kernel is in before cell 19.
\<close>

definition no_categories :: "notebook \<Rightarrow> bool" where
  "no_categories st =
     (env st ''df'' = None
      \<and> (case env st ''adshex'' of None \<Rightarrow> True | Some (Frame f) \<Rightarrow> categorical f = [] | Some _ \<Rightarrow> True)
      \<and> (case env st ''features'' of None \<Rightarrow> True | Some (Frame f) \<Rightarrow> categorical f = [] | Some _ \<Rightarrow> True)
      \<and> (case env st ''labels'' of None \<Rightarrow> True | Some (Frame f) \<Rightarrow> categorical f = [] | Some _ \<Rightarrow> True))"

section \<open>A small session\<close>

text \<open>
  Two input files in the notebook's layout, and a library whose classifiers look at the
  first feature only and whose shuffle reverses the rows. \<open>A3\<close> is labeled but has no
  aircraft type; \<open>A5\<close>, \<open>A6\<close> and \<open>A7\<close> have no label. \<open>example_session n\<close> is the kernel's state after the first \<open>n\<close> code cells.
\<close>

definition example_features :: csv where
  "example_features =
     ([''adshex'', ''duration'', ''type''],
      [[Str ''A1'', Num 3, Str ''C182''],
       [Str ''A2'', Num 9, Str ''T206''],
       [Str ''A3'', Num 5, NaN],
       [Str ''A4'', Num 1, Str ''C182''],
       [Str ''A5'', Num 7, Str ''SR22''],
       [Str ''A6'', Num 6, Str ''B350''],
       [Str ''A7'', Num 2, Str ''C182''],
       [Str ''A8'', Num 8, Str ''T206''],
       [Str ''A9'', Num 4, Str ''C182''],
       [Str ''A10'', Num 2, Str ''PC12'']])"

definition example_labels :: csv where
  "example_labels =
     ([''adshex'', ''label''],
      [[Str ''A2'', Str ''surveil''],
       [Str ''A1'', Str ''other''],
       [Str ''A3'', Str ''surveil''],
       [Str ''A4'', Str ''other''],
       [Str ''A8'', Str ''surveil''],
       [Str ''A9'', Str ''surveil''],
       [Str ''A10'', Str ''other'']])"

definition example_files :: "string \<Rightarrow> csv option" where
  "example_files =
     [''data/planes_features.csv'' \<mapsto> example_features, ''data/train.csv'' \<mapsto> example_labels]"

definition stable_argsort :: "cell list \<Rightarrow> nat list" where
  "stable_argsort ks = sort_key (\<lambda>i. - num_of (ks ! i)) [0..<length ks]"

definition example_lib :: lib where
  "example_lib =
     \<lparr>predict = (\<lambda>e x. Inr (map (\<lambda>r. if 5 \<le> num_of (snd r ! 0) then 1 else 0) (rows x))),
      predict_proba = (\<lambda>e x. Inr (map (\<lambda>r. if 5 \<le> num_of (snd r ! 0) then 3 / 4 else 1 / 4) (rows x))),
      feature_importances =
        (\<lambda>e. Inr (case params e of DecisionTreeClassifier d \<Rightarrow> [1] | _ \<Rightarrow> [1 / 2])),
      coef = (\<lambda>e. Inr [1]),
      argsort = stable_argsort,
      permutation = (\<lambda>n. rev [0..<n])\<rparr>"

definition example_session :: "nat \<Rightarrow> notebook" where
  "example_session n = run_cells (take n (notebook_cells example_lib)) (fresh example_files)"

definition example_adshex :: frame where
  "example_adshex =
     \<lparr>columns = [''adshex'', ''duration'', ''type'', ''label''],
      categorical = [],
      rows =
        [(0, [Str ''A1'', Num 3, Str ''C182'', Num 0]),
         (1, [Str ''A2'', Num 9, Str ''T206'', Num 1]),
         (2, [Str ''A3'', Num 5, NaN, Num 1]),
         (3, [Str ''A4'', Num 1, Str ''C182'', Num 0]),
         (4, [Str ''A5'', Num 7, Str ''SR22'', NaN]),
         (5, [Str ''A6'', Num 6, Str ''B350'', NaN]),
         (6, [Str ''A7'', Num 2, Str ''C182'', NaN]),
         (7, [Str ''A8'', Num 8, Str ''T206'', Num 1]),
         (8, [Str ''A9'', Num 4, Str ''C182'', Num 1]),
         (9, [Str ''A10'', Num 2, Str ''PC12'', Num 0])]\<rparr>"



text \<open>The merged table of the small session with its \<open>type\<close> column made categorical.\<close>

definition example_categorical :: frame where
  "example_categorical =
     example_adshex\<lparr>categorical :=
        [(''type'', [Str ''B350'', Str ''C182'', Str ''PC12'', Str ''SR22'', Str ''T206''])]\<rparr>"

section \<open>Basic facts\<close>

lemma exec_single:
  "exec [s] st = (case s st of Inl e \<Rightarrow> (st, Some e) | Inr st' \<Rightarrow> (st', None))"
  by (simp split: sum.splits)

lemma rows_dropna: "rows (dropna a) = filter (\<lambda>r. NaN \<notin> set (snd r)) (rows a)"
proof -
  have "list_all (\<lambda>v. v \<noteq> NaN) xs \<longleftrightarrow> NaN \<notin> set xs" for xs :: "cell list"
    by (induction xs) auto
  then show ?thesis
    by (simp add: dropna_def)
qed

lemma example_adshex_bound: "env (example_session 6) ''adshex'' = Some (Frame example_adshex)"
  by code_simp

lemma index_of_Some: "c \<in> set cs \<Longrightarrow> \<exists>j. index_of c cs = Some j \<and> j < length cs \<and> cs ! j = c"
  by (induction cs) auto

lemma index_of_None: "c \<notin> set cs \<Longrightarrow> index_of c cs = None"
  by (induction cs) auto






lemma exec_ok_Cons:
  "exec (s # ss) st = (st', None) \<longleftrightarrow> (\<exists>st1. s st = Inr st1 \<and> exec ss st1 = (st', None))"
  by (cases "s st") auto

lemma exec_ok_Nil: "exec [] st = (st', None) \<longleftrightarrow> st' = st"
  by auto

lemma and_then_ok: "and_then r k = Inr v \<longleftrightarrow> (\<exists>x. r = Inr x \<and> k x = Inr v)"
  by (cases r) (auto simp: and_then_def)

lemma assign_ok:
  "assign v rhs st = Inr st' \<longleftrightarrow> (\<exists>x. rhs st = Inr x \<and> st' = st\<lparr>env := (env st)(v \<mapsto> x)\<rparr>)"
  by (cases "rhs st") (auto simp: assign_def and_then_def)

lemma get_frame_ok: "get_frame st v = Inr f \<longleftrightarrow> env st v = Some (Frame f)"
  by (auto simp: get_frame_def split: option.splits pyval.splits)

lemma get_series_ok: "get_series st v = Inr s \<longleftrightarrow> env st v = Some (Series s)"
  by (auto simp: get_series_def split: option.splits pyval.splits)

lemma get_estimator_ok: "get_estimator st v = Inr e \<longleftrightarrow> env st v = Some (Estimator e)"
  by (auto simp: get_estimator_def split: option.splits pyval.splits)

lemma get_floats_ok: "get_floats st v = Inr x \<longleftrightarrow> env st v = Some (Floats x)"
  by (auto simp: get_floats_def split: option.splits pyval.splits)

lemmas run_simps = exec_ok_Cons exec_ok_Nil and_then_ok assign_ok get_frame_ok get_series_ok
  get_estimator_ok get_floats_ok









lemma cell26_effect:
  "env st ''adshex'' = Some (Frame a) \<Longrightarrow>
   exec cell26 st = (st\<lparr>env := (env st)(''train_df'' \<mapsto> Frame (dropna a))\<rparr>, None)"
  by (simp add: cell26_def assign_def and_then_def get_frame_def)

lemma exec_env_preserved:
  assumes "\<And>s st st'. s \<in> set c \<Longrightarrow> s st = Inr st' \<Longrightarrow> env st' v = env st v"
  shows "env (fst (exec c st)) v = env st v"
  using assms
proof (induction c arbitrary: st)
  case Nil
  then show ?case by simp
next
  case (Cons s c)
  show ?case
  proof (cases "s st")
    case (Inl e)
    then show ?thesis by simp
  next
    case (Inr st1)
    have "env (fst (exec c st1)) v = env st1 v"
    proof (rule Cons.IH)
      fix s' sa sb
      assume "s' \<in> set c" "s' sa = Inr sb"
      then show "env sb v = env sa v"
        using Cons.prems[of s' sa sb] by simp
    qed
    moreover have "env st1 v = env st v"
      using Cons.prems[of s st st1] Inr by simp
    ultimately show ?thesis
      using Inr by simp
  qed
qed

lemma assign_other: "v \<noteq> w \<Longrightarrow> assign w rhs st = Inr st' \<Longrightarrow> env st' v = env st v"
  by (auto simp: assign_ok)

lemma fit_stmt_other: "v \<noteq> w \<Longrightarrow> fit_stmt w a b st = Inr st' \<Longrightarrow> env st' v = env st v"
  by (auto simp: fit_stmt_def assign_ok)

lemma fit_stmt_ok:
  "fit_stmt v xv yv st = Inr st' \<longleftrightarrow>
     (\<exists>e x y. env st v = Some (Estimator e) \<and> env st xv = Some (Frame x) \<and> env st yv = Some (Series y)
        \<and> length (rows x) = length y
        \<and> st' = st\<lparr>env := (env st)(v \<mapsto> Estimator (e\<lparr>fitted := Some (x, y)\<rparr>))\<rparr>)"
  by (auto simp: fit_stmt_def run_simps fit_def split: if_splits)

lemma cell56_keeps:
  "v \<notin> {''feature_names'', ''importances''} \<Longrightarrow> env (fst (exec (cell56 L) st)) v = env st v"
  by (rule exec_env_preserved) (auto simp: cell56_def assign_ok)

lemma cell49_keeps:
  "v \<notin> {''y_true'', ''y_pred'', ''matrix''} \<Longrightarrow> env (fst (exec (cell49 L) st)) v = env st v"
  by (rule exec_env_preserved) (auto simp: cell49_def assign_ok)

lemma index_of_lt: "index_of c xs = Some j \<Longrightarrow> j < length xs \<and> xs ! j = c"
  by (induction xs arbitrary: j) (auto split: if_splits)

lemma index_of_append: "index_of c xs = Some j \<Longrightarrow> index_of c (xs @ ys) = Some j"
  by (induction xs arbitrary: j) (auto split: if_splits)

lemma map_zip_self: "map (\<lambda>p. F (fst p) (snd p)) (zip xs (map g xs)) = map (\<lambda>x. F x (g x)) xs"
  by (induction xs) auto

lemma run_cells_Nil: "run_cells [] st = st"
  by (simp add: run_cells_def)

lemma run_cells_Cons: "run_cells (c # cs) st = run_cells cs (fst (exec c st))"
  by (simp add: run_cells_def)

lemma run_cells_append: "run_cells (cs @ ds) st = run_cells ds (run_cells cs st)"
  by (simp add: run_cells_def)

lemma run_cells_env_preserved:
  assumes "\<And>c st. c \<in> set cs \<Longrightarrow> env (fst (exec c st)) v = env st v"
  shows "env (run_cells cs st) v = env st v"
  using assms
proof (induction cs arbitrary: st)
  case Nil
  then show ?case by (simp add: run_cells_Nil)
next
  case (Cons c cs)
  have "env (run_cells cs (fst (exec c st))) v = env (fst (exec c st)) v"
  proof (rule Cons.IH)
    fix c' s
    assume "c' \<in> set cs"
    then show "env (fst (exec c' s)) v = env s v"
      using Cons.prems[of c' s] by simp
  qed
  also have "\<dots> = env st v"
    using Cons.prems[of c st] by simp
  finally show ?case
    by (simp add: run_cells_Cons)
qed

lemma training_cells_keep_adshex:
  assumes "c \<in> set (training_cells L)"
  shows "env (fst (exec c st)) ''adshex'' = env st ''adshex''"
proof (rule exec_env_preserved)
  fix s sa sb
  assume "s \<in> set c" "s sa = Inr sb"
  with assms show "env sb ''adshex'' = env sa ''adshex''"
    unfolding training_cells_def
    by (auto simp: cell28_def cell32_def cell34_def cell38_def cell44_def cell45_def cell49_def
        cell53_def cell56_def cell60_def cell64_def cell66_def cell70_def cell74_def
        assign_ok fit_stmt_ok and_then_ok)
qed

lemma cell19_keeps:
  "v \<noteq> ''df'' \<Longrightarrow> env (fst (exec cell19 st)) v = env st v"
  by (rule exec_env_preserved) (auto simp: cell19_def assign_ok)
lemma replace_label_codes:
  "replace_value label_codes (Str ''surveil'') = Num 1"
  "replace_value label_codes (Str ''other'') = Num 0"
  "replace_value label_codes NaN = NaN"
  by (simp_all add: replace_value_def label_codes_def)

lemma cell14_effect:
  assumes a: "env st ''adshex'' = Some (Frame a)"
      and j: "index_of ''label'' (columns a) = Some j"
  shows "\<exists>b. exec cell14 st = (st\<lparr>env := (env st)(''adshex'' \<mapsto> Frame b)\<rparr>, None)
           \<and> columns b = columns a
           \<and> rows b = map (\<lambda>r. (fst r, (snd r)[j := replace_value label_codes (snd r ! j)])) (rows a)"
proof -
  define b where "b = a\<lparr>categorical := filter (\<lambda>p. fst p \<noteq> ''label'') (categorical a),
      rows := map (\<lambda>r. (fst r, (snd r)[j := replace_value label_codes (snd r ! j)])) (rows a)\<rparr>"
  have g: "get_column ''label'' a = Inr (map (\<lambda>r. (fst r, snd r ! j)) (rows a))"
    using j by (simp add: get_column_def)
  have z: "map (\<lambda>p. (fst (fst p), (snd (fst p))[j := snd p]))
             (zip (rows a) (map (\<lambda>r. replace_value label_codes (snd r ! j)) (rows a)))
           = map (\<lambda>r. (fst r, (snd r)[j := replace_value label_codes (snd r ! j)])) (rows a)"
    using map_zip_self[of "\<lambda>r v. (fst r, (snd r)[j := v])" "rows a"
        "\<lambda>r. replace_value label_codes (snd r ! j)"] by simp
  have s: "set_column ''label'' (map (\<lambda>p. replace_value label_codes (snd p))
             (map (\<lambda>r. (fst r, snd r ! j)) (rows a))) a = Inr b"
    using j z by (simp add: set_column_def b_def o_def)
  have "exec cell14 st = (st\<lparr>env := (env st)(''adshex'' \<mapsto> Frame b)\<rparr>, None)"
    using a g s by (simp add: cell14_def assign_def and_then_def get_frame_def)
  then show ?thesis
    by (intro exI[of _ b]) (simp add: b_def)
qed

lemma set_column_keeps_other:
  assumes s: "set_column c vs b = Inr b'"
      and j: "index_of d (columns b) = Some j"
      and cd: "c \<noteq> d"
      and i: "i < length (rows b)"
      and w: "j < length (snd (rows b ! i))"
  shows "index_of d (columns b') = Some j \<and> length (rows b') = length (rows b)
         \<and> fst (rows b' ! i) = fst (rows b ! i)
         \<and> j < length (snd (rows b' ! i))
         \<and> snd (rows b' ! i) ! j = snd (rows b ! i) ! j"
proof -
  from s have len: "length vs = length (rows b)"
    by (auto simp: set_column_def split: if_splits)
  show ?thesis
  proof (cases "index_of c (columns b)")
    case None
    with s len have b': "b' = b\<lparr>columns := columns b @ [c],
        rows := map (\<lambda>p. (fst (fst p), snd (fst p) @ [snd p])) (zip (rows b) vs)\<rparr>"
      by (simp add: set_column_def)
    show ?thesis
      using i len w j by (simp add: b' index_of_append nth_append)
  next
    case (Some k)
    with s len have b': "b' = b\<lparr>categorical := filter (\<lambda>p. fst p \<noteq> c) (categorical b),
        rows := map (\<lambda>p. (fst (fst p), (snd (fst p))[k := snd p])) (zip (rows b) vs)\<rparr>"
      by (simp add: set_column_def)
    have "k \<noteq> j"
      using index_of_lt[OF Some] index_of_lt[OF j] cd by auto
    then show ?thesis
      using i len w j by (simp add: b')
  qed
qed

lemma cell21_effect:
  assumes b: "env st ''adshex'' = Some (Frame b)"
      and j: "index_of ''label'' (columns b) = Some j"
      and w: "\<And>i. i < length (rows b) \<Longrightarrow> j < length (snd (rows b ! i))"
  shows "\<exists>c. env (fst (exec cell21 st)) ''adshex'' = Some (Frame c)
           \<and> index_of ''label'' (columns c) = Some j
           \<and> length (rows c) = length (rows b)
           \<and> (\<forall>i<length (rows b). fst (rows c ! i) = fst (rows b ! i)
                 \<and> j < length (snd (rows c ! i))
                 \<and> snd (rows c ! i) ! j = snd (rows b ! i) ! j)"
proof (cases "snd (exec cell21 st)")
  case None
  then obtain cs c where c: "set_column ''type_code'' cs b = Inr c"
      and e: "fst (exec cell21 st) = st\<lparr>env := (env st)(''adshex'' \<mapsto> Frame c)\<rparr>"
    using b by (auto simp: cell21_def exec_single assign_ok and_then_ok get_frame_ok split: sum.splits)
  have "index_of ''label'' (columns c) = Some j \<and> length (rows c) = length (rows b)
         \<and> fst (rows c ! i) = fst (rows b ! i)
         \<and> j < length (snd (rows c ! i))
         \<and> snd (rows c ! i) ! j = snd (rows b ! i) ! j" if "i < length (rows b)" for i
    using set_column_keeps_other[OF c j _ that w[OF that]] by simp
  moreover have "index_of ''label'' (columns c) = Some j \<and> length (rows c) = length (rows b)"
  proof -
    from c have len: "length cs = length (rows b)"
      by (auto simp: set_column_def split: if_splits)
    from c len show ?thesis
      using j index_of_lt[OF j]
      by (cases "index_of ''type_code'' (columns b)")
        (auto simp: set_column_def index_of_append)
  qed
  ultimately show ?thesis
    using e by (intro exI[of _ c]) simp
next
  case (Some err)
  then have "fst (exec cell21 st) = st"
    by (auto simp: cell21_def exec_single split: sum.splits)
  then show ?thesis
    using b j w by (intro exI[of _ b]) simp
qed

lemma run_ok_Cons:
  "run_ok (c # cs) st = Some st' \<longleftrightarrow> (\<exists>s1. exec c st = (s1, None) \<and> run_ok cs s1 = Some st')"
  by (cases "exec c st") (auto split: option.splits)

lemma run_ok_Nil: "run_ok [] st = Some st' \<longleftrightarrow> st' = st"
  by auto

lemma index_of_None_iff: "index_of c xs = None \<longleftrightarrow> c \<notin> set xs"
  by (induction xs) auto

lemma index_of_snoc: "c \<notin> set xs \<Longrightarrow> index_of c (xs @ [c]) = Some (length xs)"
  by (induction xs) auto

lemma length_keep_cells:
  "length cols = length r \<Longrightarrow> length (keep_cells cs cols r) = length (filter (\<lambda>c. c \<notin> set cs) cols)"
  by (induction cols r rule: list_induct2) (auto simp: keep_cells_def)

lemma wf_frame_row: "wf_frame f \<Longrightarrow> r \<in> set (rows f) \<Longrightarrow> length (snd r) = length (columns f)"
  by (simp add: wf_frame_def list_all_iff)

lemma where_isnull_effect:
  assumes "where_isnull c f = Inr g" "wf_frame f"
  shows "\<exists>j. index_of c (columns f) = Some j \<and> rows g = filter (\<lambda>r. snd r ! j = NaN) (rows f)
            \<and> columns g = columns f \<and> wf_frame g"
proof -
  from assms(1) obtain j where j: "index_of c (columns f) = Some j"
    and g: "g = f\<lparr>rows := filter (\<lambda>r. snd r ! j = NaN) (rows f)\<rparr>"
    by (auto simp: where_isnull_def split: option.splits)
  have "wf_frame g"
    using wf_frame_row[OF assms(2)] by (simp add: g wf_frame_def list_all_iff)
  with j g show ?thesis by simp
qed

lemma drop_columns_effect:
  assumes "drop_columns cs f = Inr g" "wf_frame f"
  shows "columns g = filter (\<lambda>c. c \<notin> set cs) (columns f) \<and> length (rows g) = length (rows f)
         \<and> wf_frame g"
proof -
  from assms(1) have g: "g = \<lparr>columns = filter (\<lambda>c. c \<notin> set cs) (columns f),
                categorical = filter (\<lambda>p. fst p \<notin> set cs) (categorical f),
                rows = map (\<lambda>r. (fst r, keep_cells cs (columns f) (snd r))) (rows f)\<rparr>"
    by (auto simp: drop_columns_def split: if_splits)
  have "length (keep_cells cs (columns f) (snd r)) = length (filter (\<lambda>c. c \<notin> set cs) (columns f))"
    if "r \<in> set (rows f)" for r
    using wf_frame_row[OF assms(2) that] by (simp add: length_keep_cells)
  then have "wf_frame g"
    by (simp add: g wf_frame_def list_all_iff)
  then show ?thesis by (simp add: g)
qed

lemma set_column_effect:
  assumes s: "set_column c vs f = Inr g" and wf: "wf_frame f"
  shows "\<exists>k. index_of c (columns g) = Some k \<and> wf_frame g \<and> length vs = length (rows f)
            \<and> length (rows g) = length (rows f)
            \<and> set (columns g) = insert c (set (columns f))
            \<and> (\<forall>i<length (rows f). snd (rows g ! i) ! k = vs ! i)"
proof -
  from s have len: "length vs = length (rows f)"
    by (auto simp: set_column_def split: if_splits)
  have wl: "length (snd (rows f ! i)) = length (columns f)" if "i < length (rows f)" for i
    using wf that by (simp add: wf_frame_def list_all_length)
  show ?thesis
  proof (cases "index_of c (columns f)")
    case None
    with s len have g: "g = f\<lparr>columns := columns f @ [c],
        rows := map (\<lambda>p. (fst (fst p), snd (fst p) @ [snd p])) (zip (rows f) vs)\<rparr>"
      by (simp add: set_column_def)
    have k: "index_of c (columns g) = Some (length (columns f))"
      using None by (simp add: g index_of_snoc index_of_None_iff)
    have w: "wf_frame g"
      using wf_frame_row[OF wf] len by (auto simp: g wf_frame_def list_all_iff dest!: set_zip_leftD)
    have v: "snd (rows g ! i) ! length (columns f) = vs ! i" if "i < length (rows f)" for i
      using that len wl[OF that] by (simp add: g nth_append)
    show ?thesis
      using k w len v by (intro exI[of _ "length (columns f)"]) (simp add: g)
  next
    case (Some k)
    with s len have g: "g = f\<lparr>categorical := filter (\<lambda>p. fst p \<noteq> c) (categorical f),
        rows := map (\<lambda>p. (fst (fst p), (snd (fst p))[k := snd p])) (zip (rows f) vs)\<rparr>"
      by (simp add: set_column_def)
    have kl: "k < length (columns f)" "columns f ! k = c"
      using index_of_lt[OF Some] by simp_all
    have w: "wf_frame g"
      using wf_frame_row[OF wf] len by (auto simp: g wf_frame_def list_all_iff dest!: set_zip_leftD)
    have v: "snd (rows g ! i) ! k = vs ! i" if "i < length (rows f)" for i
      using that len wl[OF that] kl by (simp add: g)
    have "c \<in> set (columns f)"
      using kl by (metis nth_mem)
    then show ?thesis
      using Some w len v by (intro exI[of _ k]) (auto simp: g)
  qed
qed



lemma run_ok_run_cells: "run_ok cs st = Some st' \<Longrightarrow> run_cells cs st = st'"
proof (induction cs arbitrary: st)
  case Nil
  then show ?case by (simp add: run_cells_Nil)
next
  case (Cons c cs)
  from Cons.prems obtain s1 where e: "exec c st = (s1, None)" and r: "run_ok cs s1 = Some st'"
    by (auto simp: run_ok_Cons simp del: run_ok.simps)
  from Cons.IH[OF r] e show ?case
    by (simp add: run_cells_Cons)
qed




lemma scoring_run:
  assumes a: "env st ''adshex'' = Some (Frame a)"
      and run: "run_ok [cell76, cell81, cell83 L, cell89, cell90 L, cell93 L, cell94] st = Some st'"
  shows "\<exists>n x1 p1 x2 x3 p2 x4 x5.
           where_isnull ''label'' a = Inr n
         \<and> drop_columns [''label'', ''adshex'', ''type''] n = Inr x1
         \<and> set_column ''predicted'' (map Num p1) x1 = Inr x2
         \<and> drop_columns [''predicted''] x2 = Inr x3
         \<and> set_column ''predicted_prob'' (map Num p2) x3 = Inr x4
         \<and> sort_values_desc (argsort L) ''predicted_prob'' x4 = Inr x5
         \<and> files st' ''spy_planes'' = Some (to_csv (head 200 x5))"
proof -
  from run a obtain n x1 e p1 x2 x3 e' p2 x4 x5 where
    f: "where_isnull ''label'' a = Inr n"
       "drop_columns [''label'', ''adshex'', ''type''] n = Inr x1"
       "set_column ''predicted'' (map Num p1) x1 = Inr x2"
       "drop_columns [''predicted''] x2 = Inr x3"
       "set_column ''predicted_prob'' (map Num p2) x3 = Inr x4"
       "sort_values_desc (argsort L) ''predicted_prob'' x4 = Inr x5"
       "files st' ''spy_planes'' = Some (to_csv (head 200 x5))"
    by (auto simp: run_ok_Cons run_ok_Nil cell76_def cell81_def cell83_def cell89_def cell90_def
        cell93_def cell94_def run_simps simp del: exec.simps run_ok.simps)
  show ?thesis
    apply (rule exI[of _ n])
    apply (rule exI[of _ x1])
    apply (rule exI[of _ p1])
    apply (rule exI[of _ x2])
    apply (rule exI[of _ x3])
    apply (rule exI[of _ p2])
    apply (rule exI[of _ x4])
    apply (rule exI[of _ x5])
    using f by simp
qed

lemma sort_values_desc_columns: "sort_values_desc A c f = Inr g \<Longrightarrow> columns g = columns f"
  by (auto simp: sort_values_desc_def Let_def split: option.splits)

lemma no_categories_fresh: "no_categories (fresh fs)"
  by (simp add: no_categories_def fresh_def)

lemma exec_single_fst: "fst (exec [s] st) = (case s st of Inl e \<Rightarrow> st | Inr st' \<Rightarrow> st')"
  by (simp split: sum.splits)

lemma no_categories_cell4: "no_categories st \<Longrightarrow> no_categories (fst (exec cell4 st))"
  by (auto simp: cell4_def exec_single_fst assign_ok and_then_ok no_categories_def read_csv_def
      split: sum.splits)

lemma no_categories_cell5: "no_categories st \<Longrightarrow> no_categories (fst (exec cell5 st))"
  by (auto simp: cell5_def exec_single_fst assign_ok and_then_ok no_categories_def read_csv_def
      split: sum.splits)

lemma pd_merge_left_categorical:
  "pd_merge_left key l r = Inr m \<Longrightarrow> categorical l = [] \<Longrightarrow> categorical r = [] \<Longrightarrow> categorical m = []"
  by (auto simp: pd_merge_left_def Let_def split: option.splits)

lemma set_column_categorical:
  "set_column c vs f = Inr g \<Longrightarrow> categorical f = [] \<Longrightarrow> categorical g = []"
  by (auto simp: set_column_def split: if_splits option.splits)

lemma no_categories_cell8: "no_categories st \<Longrightarrow> no_categories (fst (exec cell8 st))"
  by (auto simp: cell8_def exec_single_fst assign_ok and_then_ok get_frame_ok no_categories_def
      dest: pd_merge_left_categorical split: sum.splits)

lemma no_categories_cell14: "no_categories st \<Longrightarrow> no_categories (fst (exec cell14 st))"
  by (auto simp: cell14_def exec_single_fst assign_ok and_then_ok get_frame_ok no_categories_def
      dest: set_column_categorical split: sum.splits)

lemma cell19_raises: "no_categories st \<Longrightarrow> exec cell19 st = (st, Some NameError)"
  by (simp add: cell19_def assign_def and_then_def get_frame_def no_categories_def)

lemma cell21_raises:
  assumes "no_categories st"
  shows "fst (exec cell21 st) = st \<and> snd (exec cell21 st) \<in> {Some NameError, Some AttributeError}"
proof (cases "env st ''adshex''")
  case None
  then show ?thesis
    by (simp add: cell21_def assign_def and_then_def get_frame_def)
next
  case (Some v)
  show ?thesis
  proof (cases v)
    case (Frame f)
    with Some assms have c: "categorical f = []"
      by (simp add: no_categories_def)
    have "cat_codes ''type'' f = Inl AttributeError"
      by (simp add: cat_codes_def c get_column_def split: option.splits)
    with Some Frame show ?thesis
      by (simp add: cell21_def assign_def and_then_def get_frame_def)
  qed (use Some in \<open>simp_all add: cell21_def assign_def and_then_def get_frame_def\<close>)
qed

lemma cat_code_member:
  "u \<in> set cats \<Longrightarrow> \<exists>i. index_of u cats = Some i \<and> cat_code cats u = Num (of_nat i)"
  using index_of_Some[of u cats] by (auto simp: cat_code_def)

lemma cat_code_injective:
  assumes "u \<in> set cats" "cat_code cats u = cat_code cats v"
  shows "u = v"
proof -
  from cat_code_member[OF assms(1)] obtain i where
    i: "index_of u cats = Some i" "cat_code cats u = Num (of_nat i)"
    by blast
  show ?thesis
  proof (cases "index_of v cats")
    case None
    then have "cat_code cats v = Num (- 1)"
      by (simp add: cat_code_def)
    with assms(2) i(2) have "(of_nat i :: real) = - 1"
      by simp
    moreover have "(0 :: real) \<le> of_nat i"
      by simp
    ultimately show ?thesis
      by linarith
  next
    case (Some i')
    then have "cat_code cats v = Num (of_nat i')"
      by (simp add: cat_code_def)
    with assms(2) i(2) have "i = i'"
      by simp
    with index_of_lt[OF i(1)] index_of_lt[OF Some] show ?thesis
      by simp
  qed
qed

lemma astype_category_effect:
  assumes "astype_category c a0 = Inr a" "index_of c (columns a0) = Some k"
  shows "columns a = columns a0 \<and> rows a = rows a0
         \<and> map_of (categorical a) c = Some (categories (map (\<lambda>r. snd r ! k) (rows a0)))"
  using assms by (auto simp: astype_category_def get_column_def o_def split: sum.splits)

lemma set_column_columns:
  "set_column c vs f = Inr g \<Longrightarrow> set (columns g) = insert c (set (columns f))"
  by (auto simp: set_column_def index_of_None_iff split: if_splits option.splits
      dest: index_of_lt)

lemma set_column_runs:
  "length vs = length (rows f) \<Longrightarrow> \<exists>g. set_column c vs f = Inr g \<and> length (rows g) = length (rows f)"
  by (auto simp: set_column_def split: option.splits)

lemma drop_columns_runs:
  "set cs \<subseteq> set (columns f) \<Longrightarrow> \<exists>g. drop_columns cs f = Inr g \<and> length (rows g) = length (rows f)"
  by (auto simp: drop_columns_def list_all_iff)

lemma sort_values_desc_runs:
  "c \<in> set (columns f) \<Longrightarrow> \<exists>g. sort_values_desc A c f = Inr g"
  using index_of_Some[of c "columns f"] by (auto simp: sort_values_desc_def Let_def)

lemma scoring_runs:
  assumes a: "env st ''adshex'' = Some (Frame a)"
      and cols: "{''label'', ''adshex'', ''type''} \<subseteq> set (columns a)"
      and clf: "env st ''clf'' = Some (Estimator e)"
      and p1: "one_per_row (predict L e)"
      and p2: "one_per_row (predict_proba L e)"
  shows "\<exists>st'. run_ok [cell76, cell81, cell83 L, cell89, cell90 L, cell93 L, cell94] st = Some st'"
proof -
  from cols obtain j where j: "index_of ''label'' (columns a) = Some j"
    using index_of_Some[of "''label''" "columns a"] by auto
  define n where "n = a\<lparr>rows := filter (\<lambda>r. snd r ! j = NaN) (rows a)\<rparr>"
  have n: "where_isnull ''label'' a = Inr n"
    using j by (simp add: where_isnull_def n_def)
  have "set [''label'', ''adshex'', ''type''] \<subseteq> set (columns n)"
    using cols by (simp add: n_def)
  from drop_columns_runs[OF this] obtain x1 where
    x1: "drop_columns [''label'', ''adshex'', ''type''] n = Inr x1"
    by blast
  from p1 obtain q1 where q1: "predict L e x1 = Inr q1" "length q1 = length (rows x1)"
    unfolding one_per_row_def by blast
  from set_column_runs[of "map Num q1" x1 "''predicted''"] q1(2) obtain x2 where
    x2: "set_column ''predicted'' (map Num q1) x1 = Inr x2"
    by auto
  have "set [''predicted''] \<subseteq> set (columns x2)"
    using set_column_columns[OF x2] by simp
  from drop_columns_runs[OF this] obtain x3 where
    x3: "drop_columns [''predicted''] x2 = Inr x3"
    by blast
  from p2 obtain q2 where q2: "predict_proba L e x3 = Inr q2" "length q2 = length (rows x3)"
    unfolding one_per_row_def by blast
  from set_column_runs[of "map Num q2" x3 "''predicted_prob''"] q2(2) obtain x4 where
    x4: "set_column ''predicted_prob'' (map Num q2) x3 = Inr x4"
    by auto
  have "''predicted_prob'' \<in> set (columns x4)"
    using set_column_columns[OF x4] by simp
  from sort_values_desc_runs[OF this] obtain x5 where
    x5: "sort_values_desc (argsort L) ''predicted_prob'' x4 = Inr x5"
    by blast
  define s1 where "s1 = st\<lparr>env := (env st)(''new_df'' \<mapsto> Frame n)\<rparr>"
  define s2 where "s2 = s1\<lparr>env := (env s1)(''X'' \<mapsto> Frame x1)\<rparr>"
  define s3 where "s3 = s2\<lparr>env := (env s2)(''X'' \<mapsto> Frame x2)\<rparr>"
  define s4 where "s4 = s3\<lparr>env := (env s3)(''X'' \<mapsto> Frame x3)\<rparr>"
  define s5 where "s5 = s4\<lparr>env := (env s4)(''X'' \<mapsto> Frame x4)\<rparr>"
  define s6 where "s6 = s5\<lparr>env := (env s5)(''df'' \<mapsto> Frame (head 200 x5))\<rparr>"
  define s7 where "s7 = s6\<lparr>files := (files s6)(''spy_planes'' \<mapsto> to_csv (head 200 x5))\<rparr>"
  have e1: "exec cell76 st = (s1, None)"
    using a n by (simp add: cell76_def assign_def and_then_def get_frame_def s1_def)
  have e2: "exec cell81 s1 = (s2, None)"
    using x1 by (simp add: cell81_def assign_def and_then_def get_frame_def s1_def s2_def)
  have e3: "exec (cell83 L) s2 = (s3, None)"
    using clf q1 x2
    by (simp add: cell83_def assign_def and_then_def get_frame_def get_estimator_def
        s1_def s2_def s3_def)
  have e4: "exec cell89 s3 = (s4, None)"
    using x3 by (simp add: cell89_def assign_def and_then_def get_frame_def s3_def s4_def)
  have e5: "exec (cell90 L) s4 = (s5, None)"
    using clf q2 x4
    by (simp add: cell90_def assign_def and_then_def get_frame_def get_estimator_def
        s1_def s2_def s3_def s4_def s5_def)
  have e6: "exec (cell93 L) s5 = (s6, None)"
    using x5 by (simp add: cell93_def assign_def and_then_def get_frame_def s5_def s6_def)
  have e7: "exec cell94 s6 = (s7, None)"
    by (simp add: cell94_def and_then_def get_frame_def s6_def s7_def)
  have "run_ok [cell76, cell81, cell83 L, cell89, cell90 L, cell93 L, cell94] st = Some s7"
    by (simp add: e1 e2 e3 e4 e5 e6 e7)
  then show ?thesis ..
qed


lemma scoring_output_header:
  assumes a: "env st ''adshex'' = Some (Frame a)"
      and wf: "wf_frame a"
      and run: "run_ok [cell76, cell81, cell83 L, cell89, cell90 L, cell93 L, cell94] st = Some st'"
  shows "\<exists>header body.
           files st' ''spy_planes'' = Some (header, body)
         \<and> ''adshex'' \<notin> set header
         \<and> ''predicted_prob'' \<in> set header
         \<and> set header \<subseteq> insert ''predicted_prob'' (set (columns a) - {''label'', ''adshex'', ''type''})"
proof -
  from scoring_run[OF a run] obtain n x1 p1 x2 x3 p2 x4 x5 where
    n: "where_isnull ''label'' a = Inr n"
    and x1: "drop_columns [''label'', ''adshex'', ''type''] n = Inr x1"
    and x2: "set_column ''predicted'' (map Num p1) x1 = Inr x2"
    and x3: "drop_columns [''predicted''] x2 = Inr x3"
    and x4: "set_column ''predicted_prob'' (map Num p2) x3 = Inr x4"
    and x5: "sort_values_desc (argsort L) ''predicted_prob'' x4 = Inr x5"
    and out: "files st' ''spy_planes'' = Some (to_csv (head 200 x5))"
    by (elim exE conjE) (rule that)
  from where_isnull_effect[OF n wf] have cn: "columns n = columns a" and wn: "wf_frame n"
    by auto
  from drop_columns_effect[OF x1 wn]
  have c1: "columns x1 = filter (\<lambda>c. c \<notin> set [''label'', ''adshex'', ''type'']) (columns n)"
    and w1: "wf_frame x1"
    by simp_all
  from set_column_effect[OF x2 w1]
  have c2: "set (columns x2) = insert ''predicted'' (set (columns x1))" and w2: "wf_frame x2"
    by auto
  from drop_columns_effect[OF x3 w2]
  have c3: "columns x3 = filter (\<lambda>c. c \<notin> set [''predicted'']) (columns x2)" and w3: "wf_frame x3"
    by simp_all
  from set_column_effect[OF x4 w3]
  have c4: "set (columns x4) = insert ''predicted_prob'' (set (columns x3))"
    by auto
  have c5: "columns x5 = columns x4"
    using x5 by (rule sort_values_desc_columns)
  have s3: "set (columns x3) \<subseteq> set (columns a) - {''label'', ''adshex'', ''type''}"
    using c2 by (auto simp: c3 c1 cn)
  have f: "files st' ''spy_planes'' = Some (columns x4, map snd (take 200 (rows x5)))"
    using out by (simp add: to_csv_def head_def c5)
  have "''adshex'' \<notin> set (columns x4)" "''predicted_prob'' \<in> set (columns x4)"
    "set (columns x4) \<subseteq> insert ''predicted_prob'' (set (columns a) - {''label'', ''adshex'', ''type''})"
    using s3 by (auto simp: c4)
  with f show ?thesis
    by blast
qed




lemma example_lib_one_per_row:
  "one_per_row (predict example_lib e)" "one_per_row (predict_proba example_lib e)"
  by (simp_all add: one_per_row_def example_lib_def)

lemma example_clf_bound: "\<exists>e. env (example_session 22) ''clf'' = Some (Estimator e)"
proof -
  have "case env (example_session 22) ''clf'' of Some (Estimator e) \<Rightarrow> True | _ \<Rightarrow> False"
    by code_simp
  then show ?thesis
    by (auto split: option.splits pyval.splits)
qed

section \<open>The training table\<close>

text \<open>
  C10. \<open>train_df = adshex.dropna()\<close> keeps exactly the rows of the merged table that have
  no missing cell in any column, features and label alike, and raises nothing: a labeled
  row with a missing feature value is left out of the training table without notice.
\<close>

theorem train_df_drops_any_null:
  assumes "env st ''adshex'' = Some (Frame a)"
  shows "\<exists>t. exec cell26 st = (st\<lparr>env := (env st)(''train_df'' \<mapsto> Frame t)\<rparr>, None)
           \<and> columns t = columns a
           \<and> rows t = filter (\<lambda>r. NaN \<notin> set (snd r)) (rows a)
           \<and> (\<forall>r. r \<in> set (rows t) \<longleftrightarrow> r \<in> set (rows a) \<and> NaN \<notin> set (snd r))"
proof -
  have "exec cell26 st = (st\<lparr>env := (env st)(''train_df'' \<mapsto> Frame (dropna a))\<rparr>, None)"
    using assms by (rule cell26_effect)
  moreover have "columns (dropna a) = columns a"
    by (simp add: dropna_def)
  ultimately show ?thesis
    using rows_dropna[of a] by auto
qed

text \<open>In the small session the labeled plane \<open>A3\<close>, whose type is missing, is dropped.\<close>

theorem train_df_drops_any_null_witness:
  "(2, [Str ''A3'', Num 5, NaN, Num 1]) \<in> set (rows example_adshex)
   \<and> (\<exists>t. exec cell26 (example_session 6)
             = ((example_session 6)\<lparr>env := (env (example_session 6))(''train_df'' \<mapsto> Frame t)\<rparr>, None)
          \<and> (2, [Str ''A3'', Num 5, NaN, Num 1]) \<notin> set (rows t)
          \<and> (0, [Str ''A1'', Num 3, Str ''C182'', Num 0]) \<in> set (rows t))"
  using train_df_drops_any_null[OF example_adshex_bound]
  by (auto simp: example_adshex_def)

section \<open>The merge\<close>





section \<open>The split\<close>



section \<open>The evaluator\<close>



section \<open>The label encoding\<close>

text \<open>
  C6. From any state in which \<open>adshex\<close> is a well-formed table with a \<open>label\<close> column, run
  the cells in the notebook's order. After the encoding (cells 14 to 21) every row keeps
  its index label; its label is 1 where it was \<open>surveil\<close> and 0 where it was \<open>other\<close>; a
  label that was missing is still missing, its row is not in the training table of cell
  26, and its row is in the table of unlabeled rows that cell 76 filters for scoring.
\<close>

theorem label_encoding_keeps_null:
  assumes a: "env st ''adshex'' = Some (Frame a)"
      and wf: "wf_frame a"
      and j: "index_of ''label'' (columns a) = Some j"
  shows "\<exists>b t n.
           env (run_cells [cell14, cell19, cell21] st) ''adshex'' = Some (Frame b)
         \<and> env (run_cells [cell14, cell19, cell21, cell26] st) ''train_df'' = Some (Frame t)
         \<and> env (run_cells ([cell14, cell19, cell21, cell26] @ training_cells L @ [cell76]) st) ''new_df''
             = Some (Frame n)
         \<and> index_of ''label'' (columns b) = Some j
         \<and> length (rows b) = length (rows a)
         \<and> (\<forall>i<length (rows a).
               fst (rows b ! i) = fst (rows a ! i)
             \<and> (snd (rows a ! i) ! j = Str ''surveil'' \<longrightarrow> snd (rows b ! i) ! j = Num 1)
             \<and> (snd (rows a ! i) ! j = Str ''other'' \<longrightarrow> snd (rows b ! i) ! j = Num 0)
             \<and> (snd (rows a ! i) ! j = NaN \<longrightarrow>
                   snd (rows b ! i) ! j = NaN \<and> rows b ! i \<notin> set (rows t) \<and> rows b ! i \<in> set (rows n)))"
proof -
  define s1 where "s1 = fst (exec cell14 st)"
  define s2 where "s2 = fst (exec cell19 s1)"
  define s3 where "s3 = fst (exec cell21 s2)"
  define s4 where "s4 = fst (exec cell26 s3)"
  define s5 where "s5 = run_cells (training_cells L) s4"
  define s6 where "s6 = fst (exec cell76 s5)"
  have r3: "run_cells [cell14, cell19, cell21] st = s3"
    and r4: "run_cells [cell14, cell19, cell21, cell26] st = s4"
    by (simp_all add: run_cells_Cons run_cells_Nil s1_def s2_def s3_def s4_def)
  have r6: "run_cells ([cell14, cell19, cell21, cell26] @ training_cells L @ [cell76]) st = s6"
    by (simp add: run_cells_append run_cells_Cons run_cells_Nil s1_def s2_def s3_def s4_def s5_def s6_def)
  from cell14_effect[OF a j] obtain a1 where
    e1: "s1 = st\<lparr>env := (env st)(''adshex'' \<mapsto> Frame a1)\<rparr>"
    and c1: "columns a1 = columns a"
    and rows1: "rows a1 = map (\<lambda>r. (fst r, (snd r)[j := replace_value label_codes (snd r ! j)])) (rows a)"
    by (auto simp: s1_def)
  have jl: "j < length (columns a)"
    using index_of_lt[OF j] by simp
  have wa: "length (snd (rows a ! i)) = length (columns a)" if "i < length (rows a)" for i
    using wf that by (simp add: wf_frame_def list_all_length)
  have b2: "env s2 ''adshex'' = Some (Frame a1)"
    by (simp add: s2_def cell19_keeps e1)
  have j1: "index_of ''label'' (columns a1) = Some j"
    using j c1 by simp
  have w1: "j < length (snd (rows a1 ! i))" if "i < length (rows a1)" for i
    using that wa[of i] jl by (simp add: rows1)
  from cell21_effect[OF b2 j1 w1] obtain b where
    b3: "env s3 ''adshex'' = Some (Frame b)"
    and jb: "index_of ''label'' (columns b) = Some j"
    and lb: "length (rows b) = length (rows a1)"
    and rb: "\<forall>i<length (rows a1). fst (rows b ! i) = fst (rows a1 ! i)
                 \<and> j < length (snd (rows b ! i))
                 \<and> snd (rows b ! i) ! j = snd (rows a1 ! i) ! j"
    unfolding s3_def by blast
  have la: "length (rows a1) = length (rows a)"
    by (simp add: rows1)
  define t where "t = dropna b"
  have e4: "s4 = s3\<lparr>env := (env s3)(''train_df'' \<mapsto> Frame t)\<rparr>"
    using cell26_effect[OF b3] by (simp add: s4_def t_def)
  have rt: "rows t = filter (\<lambda>r. NaN \<notin> set (snd r)) (rows b)"
    by (simp add: t_def rows_dropna)
  have b4: "env s4 ''adshex'' = Some (Frame b)" and t4: "env s4 ''train_df'' = Some (Frame t)"
    using b3 by (simp_all add: e4)
  have b5: "env s5 ''adshex'' = Some (Frame b)"
    unfolding s5_def using training_cells_keep_adshex run_cells_env_preserved[of "training_cells L" "''adshex''" s4] b4
    by simp
  define n where "n = b\<lparr>rows := filter (\<lambda>r. snd r ! j = NaN) (rows b)\<rparr>"
  have e6: "env s6 ''new_df'' = Some (Frame n)"
    using b5 jb by (simp add: s6_def cell76_def assign_def and_then_def get_frame_def where_isnull_def n_def)
  have row: "fst (rows b ! i) = fst (rows a ! i)
             \<and> (snd (rows a ! i) ! j = Str ''surveil'' \<longrightarrow> snd (rows b ! i) ! j = Num 1)
             \<and> (snd (rows a ! i) ! j = Str ''other'' \<longrightarrow> snd (rows b ! i) ! j = Num 0)
             \<and> (snd (rows a ! i) ! j = NaN \<longrightarrow>
                   snd (rows b ! i) ! j = NaN \<and> rows b ! i \<notin> set (rows t) \<and> rows b ! i \<in> set (rows n))"
    if i: "i < length (rows a)" for i
  proof -
    from i la rb have f: "fst (rows b ! i) = fst (rows a1 ! i)" and w: "j < length (snd (rows b ! i))"
      and v: "snd (rows b ! i) ! j = snd (rows a1 ! i) ! j"
      by simp_all
    have v1: "snd (rows a1 ! i) ! j = replace_value label_codes (snd (rows a ! i) ! j)"
      and f1: "fst (rows a1 ! i) = fst (rows a ! i)"
      using i wa[OF i] jl by (simp_all add: rows1)
    have mem: "rows b ! i \<in> set (rows b)"
      using i la lb by simp
    have "rows b ! i \<notin> set (rows t) \<and> rows b ! i \<in> set (rows n)" if "snd (rows b ! i) ! j = NaN"
    proof -
      from that w have "NaN \<in> set (snd (rows b ! i))"
        by (metis nth_mem)
      then show ?thesis
        using that mem by (simp add: rt n_def)
    qed
    then show ?thesis
      using f f1 v v1 by (auto simp: replace_label_codes)
  qed
  show ?thesis
    apply (rule exI[of _ b])
    apply (rule exI[of _ t])
    apply (rule exI[of _ n])
    unfolding r3 r4 r6
    using b3 t4 e6 jb lb la row by simp
qed

text \<open>
  In the small session \<open>A1\<close> was \<open>other\<close>, \<open>A2\<close> was \<open>surveil\<close> and \<open>A5\<close> had no label.
\<close>

theorem label_encoding_keeps_null_witness:
  "\<exists>b t n.
      env (run_cells [cell14, cell19, cell21] (example_session 3)) ''adshex'' = Some (Frame b)
    \<and> env (run_cells [cell14, cell19, cell21, cell26] (example_session 3)) ''train_df'' = Some (Frame t)
    \<and> env (run_cells ([cell14, cell19, cell21, cell26] @ training_cells example_lib @ [cell76])
             (example_session 3)) ''new_df'' = Some (Frame n)
    \<and> snd (rows b ! 0) ! 3 = Num 0 \<and> snd (rows b ! 1) ! 3 = Num 1 \<and> snd (rows b ! 4) ! 3 = NaN
    \<and> rows b ! 4 \<notin> set (rows t) \<and> rows b ! 4 \<in> set (rows n)"
proof -
  define a where "a = \<lparr>columns = [''adshex'', ''duration'', ''type'', ''label''], categorical = [],
      rows =
        [(0, [Str ''A1'', Num 3, Str ''C182'', Str ''other'']),
         (1, [Str ''A2'', Num 9, Str ''T206'', Str ''surveil'']),
         (2, [Str ''A3'', Num 5, NaN, Str ''surveil'']),
         (3, [Str ''A4'', Num 1, Str ''C182'', Str ''other'']),
         (4, [Str ''A5'', Num 7, Str ''SR22'', NaN]),
         (5, [Str ''A6'', Num 6, Str ''B350'', NaN]),
         (6, [Str ''A7'', Num 2, Str ''C182'', NaN]),
         (7, [Str ''A8'', Num 8, Str ''T206'', Str ''surveil'']),
         (8, [Str ''A9'', Num 4, Str ''C182'', Str ''surveil'']),
         (9, [Str ''A10'', Num 2, Str ''PC12'', Str ''other''])]\<rparr>"
  have b: "env (example_session 3) ''adshex'' = Some (Frame a)"
    unfolding a_def by code_simp
  have h: "wf_frame a" "index_of ''label'' (columns a) = Some 3"
    by (simp_all add: a_def wf_frame_def)
  have v: "snd (rows a ! 0) ! 3 = Str ''other''" "snd (rows a ! 1) ! 3 = Str ''surveil''"
          "snd (rows a ! 4) ! 3 = NaN" "length (rows a) = 10"
    by (simp_all add: a_def)
  from label_encoding_keeps_null[OF b h, of example_lib] obtain b t n where
    A: "env (run_cells [cell14, cell19, cell21] (example_session 3)) ''adshex'' = Some (Frame b)"
       "env (run_cells [cell14, cell19, cell21, cell26] (example_session 3)) ''train_df'' = Some (Frame t)"
       "env (run_cells ([cell14, cell19, cell21, cell26] @ training_cells example_lib @ [cell76])
             (example_session 3)) ''new_df'' = Some (Frame n)"
       "\<forall>i<length (rows a).
               fst (rows b ! i) = fst (rows a ! i)
             \<and> (snd (rows a ! i) ! 3 = Str ''surveil'' \<longrightarrow> snd (rows b ! i) ! 3 = Num 1)
             \<and> (snd (rows a ! i) ! 3 = Str ''other'' \<longrightarrow> snd (rows b ! i) ! 3 = Num 0)
             \<and> (snd (rows a ! i) ! 3 = NaN \<longrightarrow>
                   snd (rows b ! i) ! 3 = NaN \<and> rows b ! i \<notin> set (rows t) \<and> rows b ! i \<in> set (rows n))"
    by (elim exE conjE) (rule that)
  from A(4) v have "snd (rows b ! 0) ! 3 = Num 0" "snd (rows b ! 1) ! 3 = Num 1"
    "snd (rows b ! 4) ! 3 = NaN" "rows b ! 4 \<notin> set (rows t)" "rows b ! 4 \<in> set (rows n)"
    by simp_all
  with A(1,2,3) show ?thesis
    by blast
qed

section \<open>The feature importances of the random-forest section\<close>

text \<open>
  C9. From any state in which the training partition is bound, run cell 53 (the decision
  tree, bound to \<open>clf\<close>), cells 56 and 60, and cell 64 (the random forest, bound to
  \<open>model\<close>). Then \<open>clf\<close> is still the decision tree fitted on the training partition, and
  cell 66, \<open>importances = clf.feature_importances_\<close>, binds the importances of that tree
  (or raises what reading them raises). Its outcome is the same for every library that
  gives the tree the same importances: those of the forest are not read.
\<close>

theorem importances_read_from_decision_tree:
  assumes xt: "env st ''X_train'' = Some (Frame xtr)"
      and yt: "env st ''y_train'' = Some (Series ytr)"
      and len: "length (rows xtr) = length ytr"
      and x: "env st ''X'' = Some (Frame xs)"
  shows "env (run_cells [cell53, cell56 L, cell60 L, cell64] st) ''clf''
           = Some (Estimator \<lparr>params = DecisionTreeClassifier 5, fitted = Some (xtr, ytr)\<rparr>)
       \<and> env (run_cells [cell53, cell56 L, cell60 L, cell64] st) ''model''
           = Some (Estimator \<lparr>params = RandomForestClassifier 100 5, fitted = Some (xtr, ytr)\<rparr>)
       \<and> (case feature_importances L \<lparr>params = DecisionTreeClassifier 5, fitted = Some (xtr, ytr)\<rparr> of
             Inr i \<Rightarrow> env (run_cells [cell53, cell56 L, cell60 L, cell64, cell66 L] st) ''importances''
                        = Some (Floats i)
                      \<and> snd (exec (cell66 L) (run_cells [cell53, cell56 L, cell60 L, cell64] st)) = None
           | Inl e \<Rightarrow> snd (exec (cell66 L) (run_cells [cell53, cell56 L, cell60 L, cell64] st)) = Some e)
       \<and> (\<forall>L'. feature_importances L' \<lparr>params = DecisionTreeClassifier 5, fitted = Some (xtr, ytr)\<rparr>
                 = feature_importances L \<lparr>params = DecisionTreeClassifier 5, fitted = Some (xtr, ytr)\<rparr>
              \<longrightarrow> exec (cell66 L') (run_cells [cell53, cell56 L, cell60 L, cell64] st)
                  = exec (cell66 L) (run_cells [cell53, cell56 L, cell60 L, cell64] st))"
proof -
  define tree where "tree = \<lparr>params = DecisionTreeClassifier 5, fitted = Some (xtr, ytr)\<rparr>"
  define forest where "forest = \<lparr>params = RandomForestClassifier 100 5, fitted = Some (xtr, ytr)\<rparr>"
  define s1 where "s1 = fst (exec cell53 st)"
  define s2 where "s2 = fst (exec (cell56 L) s1)"
  define s3 where "s3 = fst (exec (cell60 L) s2)"
  define s4 where "s4 = fst (exec cell64 s3)"
  have run4: "run_cells [cell53, cell56 L, cell60 L, cell64] st = s4"
    by (simp add: run_cells_def s1_def s2_def s3_def s4_def)
  have run5: "run_cells [cell53, cell56 L, cell60 L, cell64, cell66 L] st = fst (exec (cell66 L) s4)"
    by (simp add: run_cells_def s1_def s2_def s3_def s4_def)
  have e1: "s1 = st\<lparr>env := (env st)(''clf'' \<mapsto> Estimator tree)\<rparr>"
    using xt yt len
    by (simp add: s1_def cell53_def assign_def fit_stmt_def and_then_def get_estimator_def
        get_frame_def get_series_def fit_def new_estimator_def tree_def)
  have k2: "env s2 v = env s1 v" if "v \<notin> {''feature_names'', ''importances''}" for v
    unfolding s2_def using that by (rule cell56_keeps)
  have k3: "env s3 v = env s2 v" if "v \<notin> {''y_true'', ''y_pred'', ''matrix''}" for v
    unfolding s3_def cell60_def using that by (rule cell49_keeps)
  have c3: "env s3 ''clf'' = Some (Estimator tree)"
           "env s3 ''X_train'' = Some (Frame xtr)" "env s3 ''y_train'' = Some (Series ytr)"
           "env s3 ''X'' = Some (Frame xs)"
    using xt yt x by (simp_all add: k3 k2 e1)
  have e4: "s4 = s3\<lparr>env := (env s3)(''model'' \<mapsto> Estimator forest)\<rparr>"
    using c3 len
    by (simp add: s4_def cell64_def assign_def fit_stmt_def and_then_def get_estimator_def
        get_frame_def get_series_def fit_def new_estimator_def forest_def)
  have c4: "env s4 ''clf'' = Some (Estimator tree)" "env s4 ''model'' = Some (Estimator forest)"
           "env s4 ''X'' = Some (Frame xs)"
    using c3 by (simp_all add: e4)
  have r66: "exec (cell66 K) s4 =
       (case feature_importances K tree of
          Inl e \<Rightarrow> (s4\<lparr>env := (env s4)(''feature_names'' \<mapsto> Strings (columns xs))\<rparr>, Some e)
        | Inr i \<Rightarrow> (s4\<lparr>env := (env s4)(''feature_names'' \<mapsto> Strings (columns xs),
                                       ''importances'' \<mapsto> Floats i)\<rparr>, None))" for K
    using c4 
    by (simp add: cell66_def cell56_def assign_def and_then_def get_estimator_def get_frame_def
        split: sum.splits)
  show ?thesis
    unfolding run4 run5 tree_def[symmetric] forest_def[symmetric]
    apply (intro conjI)
       apply (rule c4(1))
      apply (rule c4(2))
     apply (simp add: r66 split: sum.splits)
    apply (simp add: r66)
    done
qed

text \<open>
  In the small session the tree's importances are \<open>[1]\<close> and the forest's are \<open>[1 / 2]\<close>.
\<close>

theorem importances_read_from_decision_tree_witness:
  "env (run_cells [cell53, cell56 example_lib, cell60 example_lib, cell64, cell66 example_lib]
         (example_session 15)) ''importances'' = Some (Floats [1])
   \<and> (\<exists>e. env (run_cells [cell53, cell56 example_lib, cell60 example_lib, cell64]
                  (example_session 15)) ''model'' = Some (Estimator e)
          \<and> feature_importances example_lib e = Inr [1 / 2])"
proof -
  define xtr where "xtr = \<lparr>columns = [''duration''], categorical = [],
      rows = [(7, [Num 8]), (3, [Num 1]), (1, [Num 9]), (0, [Num 3])]\<rparr>"
  define ytr :: series where "ytr = [(7, Num 1), (3, Num 0), (1, Num 1), (0, Num 0)]"
  define xs where "xs = \<lparr>columns = [''duration''], categorical = [],
      rows = [(0, [Num 3]), (1, [Num 9]), (3, [Num 1]), (7, [Num 8]), (8, [Num 4]), (9, [Num 2])]\<rparr>"
  have b: "env (example_session 15) ''X_train'' = Some (Frame xtr)"
          "env (example_session 15) ''y_train'' = Some (Series ytr)"
    unfolding xtr_def ytr_def by code_simp+
  have x: "env (example_session 15) ''X'' = Some (Frame xs)"
    unfolding xs_def by code_simp
  have l: "length (rows xtr) = length ytr"
    by (simp add: xtr_def ytr_def)
  have i: "feature_importances example_lib \<lparr>params = DecisionTreeClassifier 5, fitted = Some (xtr, ytr)\<rparr>
           = Inr [1]"
          "feature_importances example_lib \<lparr>params = RandomForestClassifier 100 5, fitted = Some (xtr, ytr)\<rparr>
           = Inr [1 / 2]"
    by (simp_all add: example_lib_def)
  note T = importances_read_from_decision_tree[OF b l x, of example_lib]
  from T have m: "env (run_cells [cell53, cell56 example_lib, cell60 example_lib, cell64]
                  (example_session 15)) ''model''
      = Some (Estimator \<lparr>params = RandomForestClassifier 100 5, fitted = Some (xtr, ytr)\<rparr>)"
    by (elim conjE)
  from T have "case feature_importances example_lib \<lparr>params = DecisionTreeClassifier 5, fitted = Some (xtr, ytr)\<rparr> of
             Inr i \<Rightarrow> env (run_cells [cell53, cell56 example_lib, cell60 example_lib, cell64, cell66 example_lib]
                          (example_session 15)) ''importances'' = Some (Floats i)
                      \<and> snd (exec (cell66 example_lib)
                            (run_cells [cell53, cell56 example_lib, cell60 example_lib, cell64]
                               (example_session 15))) = None
           | Inl e \<Rightarrow> snd (exec (cell66 example_lib)
                            (run_cells [cell53, cell56 example_lib, cell60 example_lib, cell64]
                               (example_session 15))) = Some e"
    by (elim conjE)
  then have "env (run_cells [cell53, cell56 example_lib, cell60 example_lib, cell64, cell66 example_lib]
                          (example_session 15)) ''importances'' = Some (Floats [1])"
    by (simp add: i(1))
  with m i(2) show ?thesis
    by blast
qed

section \<open>The scored table\<close>




text \<open>
  C1. From any state in which \<open>adshex\<close> is a well-formed table with the columns \<open>label\<close>,
  \<open>adshex\<close> and \<open>type\<close> and \<open>clf\<close> is an estimator that returns one prediction per row,
  cells 76 to 94 run without raising and write a file whose header has the column
  \<open>predicted_prob\<close> and, besides it, only columns of \<open>adshex\<close> other than \<open>label\<close>,
  \<open>adshex\<close> and \<open>type\<close>. The transponder code is not in the file: the scores are stored
  in \<open>X\<close>, from which cell 81 has dropped it, and \<open>to_csv\<close> is called with \<open>index=False\<close>.
\<close>

theorem scores_lack_transponder_code:
  assumes a: "env st ''adshex'' = Some (Frame a)"
      and wf: "wf_frame a"
      and cols: "{''label'', ''adshex'', ''type''} \<subseteq> set (columns a)"
      and clf: "env st ''clf'' = Some (Estimator e)"
      and p1: "one_per_row (predict L e)"
      and p2: "one_per_row (predict_proba L e)"
  shows "\<exists>st' header body.
           run_ok [cell76, cell81, cell83 L, cell89, cell90 L, cell93 L, cell94] st = Some st'
         \<and> files st' ''spy_planes'' = Some (header, body)
         \<and> ''adshex'' \<notin> set header
         \<and> ''predicted_prob'' \<in> set header
         \<and> set header \<subseteq> insert ''predicted_prob'' (set (columns a) - {''label'', ''adshex'', ''type''})"
proof -
  from scoring_runs[OF a cols clf p1 p2] obtain st' where
    run: "run_ok [cell76, cell81, cell83 L, cell89, cell90 L, cell93 L, cell94] st = Some st'"
    by blast
  from scoring_output_header[OF a wf run] obtain header body where
    "files st' ''spy_planes'' = Some (header, body)"
    "''adshex'' \<notin> set header" "''predicted_prob'' \<in> set header"
    "set header \<subseteq> insert ''predicted_prob'' (set (columns a) - {''label'', ''adshex'', ''type''})"
    by (elim exE conjE) (rule that)
  with run show ?thesis
    apply (intro exI[of _ st'])
    apply (rule exI[of _ header])
    apply (rule exI[of _ body])
    by simp
qed

text \<open>The file of the small session: durations and scores, and no key to tell whose they are.\<close>

theorem scores_lack_transponder_code_witness:
  "\<exists>header body.
      files (run_cells [cell76, cell81, cell83 example_lib, cell89, cell90 example_lib,
                        cell93 example_lib, cell94] (example_session 22)) ''spy_planes''
        = Some (header, body)
    \<and> ''adshex'' \<notin> set header
    \<and> header = [''duration'', ''predicted_prob'']
    \<and> body = [[Num 7, Num (3 / 4)], [Num 6, Num (3 / 4)], [Num 2, Num (1 / 4)]]"
proof -
  have b: "env (example_session 22) ''adshex'' = Some (Frame example_adshex)"
    by code_simp
  have h: "wf_frame example_adshex"
    "{''label'', ''adshex'', ''type''} \<subseteq> set (columns example_adshex)"
    by (simp_all add: example_adshex_def wf_frame_def)
  obtain e where c: "env (example_session 22) ''clf'' = Some (Estimator e)"
    using example_clf_bound by blast
  have v: "files (run_cells [cell76, cell81, cell83 example_lib, cell89, cell90 example_lib,
                        cell93 example_lib, cell94] (example_session 22)) ''spy_planes''
        = Some ([''duration'', ''predicted_prob''],
                [[Num 7, Num (3 / 4)], [Num 6, Num (3 / 4)], [Num 2, Num (1 / 4)]])"
    by code_simp
  from scores_lack_transponder_code[OF b h c example_lib_one_per_row] obtain st' header body where
    r: "run_ok [cell76, cell81, cell83 example_lib, cell89, cell90 example_lib,
                cell93 example_lib, cell94] (example_session 22) = Some st'"
    and A: "files st' ''spy_planes'' = Some (header, body)" "''adshex'' \<notin> set header"
    by (elim exE conjE) (rule that)
  have st': "run_cells [cell76, cell81, cell83 example_lib, cell89, cell90 example_lib,
                cell93 example_lib, cell94] (example_session 22) = st'"
    using r by (rule run_ok_run_cells)
  from v A show ?thesis
    unfolding st' by simp
qed

section \<open>The logistic regression\<close>

text \<open>
  C2. Cell 44 fits the logistic regression on \<open>X\<close> and \<open>y\<close>, the whole labeled table,
  whatever \<open>X_train\<close> and \<open>y_train\<close> are bound to.
\<close>

theorem logistic_regression_fits_full_table:
  assumes x: "env st ''X'' = Some (Frame x)"
      and y: "env st ''y'' = Some (Series y)"
      and len: "length (rows x) = length y"
  shows "exec cell44 st
           = (st\<lparr>env := (env st)(''clf'' \<mapsto> Estimator
                  \<lparr>params = LogisticRegression 1000000000 ''lbfgs'' 4000, fitted = Some (x, y)\<rparr>)\<rparr>,
              None)"
  using assms
  by (simp add: cell44_def assign_def fit_stmt_def and_then_def get_estimator_def get_frame_def
      get_series_def fit_def new_estimator_def)


text \<open>
  In the small session the estimator is fitted on all six labeled rows, among them the
  rows 8 and 9 of the test partition; the training partition has the rows 7, 3, 1 and 0.
\<close>

theorem logistic_regression_fits_full_table_witness:
  "\<exists>x y xtr ytr.
      env (fst (exec cell44 (example_session 11))) ''clf''
        = Some (Estimator \<lparr>params = LogisticRegression 1000000000 ''lbfgs'' 4000,
                            fitted = Some (x, y)\<rparr>)
    \<and> env (example_session 11) ''X'' = Some (Frame x)
    \<and> env (example_session 11) ''X_train'' = Some (Frame xtr)
    \<and> env (example_session 11) ''y_train'' = Some (Series ytr)
    \<and> map fst (rows x) = [0, 1, 3, 7, 8, 9]
    \<and> map fst (rows xtr) = [7, 3, 1, 0]
    \<and> map fst ytr = [7, 3, 1, 0]
    \<and> map fst y = [0, 1, 3, 7, 8, 9]"
proof -
  define x where "x = \<lparr>columns = [''duration''], categorical = [],
      rows = [(0, [Num 3]), (1, [Num 9]), (3, [Num 1]), (7, [Num 8]), (8, [Num 4]), (9, [Num 2])]\<rparr>"
  define y :: series where "y = [(0, Num 0), (1, Num 1), (3, Num 0), (7, Num 1), (8, Num 1), (9, Num 0)]"
  define xtr where "xtr = \<lparr>columns = [''duration''], categorical = [],
      rows = [(7, [Num 8]), (3, [Num 1]), (1, [Num 9]), (0, [Num 3])]\<rparr>"
  define ytr :: series where "ytr = [(7, Num 1), (3, Num 0), (1, Num 1), (0, Num 0)]"
  have b: "env (example_session 11) ''X'' = Some (Frame x)"
          "env (example_session 11) ''y'' = Some (Series y)"
    unfolding x_def y_def by code_simp+
  have t: "env (example_session 11) ''X_train'' = Some (Frame xtr)"
          "env (example_session 11) ''y_train'' = Some (Series ytr)"
    unfolding xtr_def ytr_def by code_simp+
  have l: "length (rows x) = length y"
    by (simp add: x_def y_def)
  have c: "env (fst (exec cell44 (example_session 11))) ''clf''
        = Some (Estimator \<lparr>params = LogisticRegression 1000000000 ''lbfgs'' 4000,
                            fitted = Some (x, y)\<rparr>)"
    using logistic_regression_fits_full_table[OF b l] by simp
  have k: "map fst (rows x) = [0, 1, 3, 7, 8, 9]" "map fst (rows xtr) = [7, 3, 1, 0]"
    "map fst ytr = [7, 3, 1, 0]" "map fst y = [0, 1, 3, 7, 8, 9]"
    by (simp_all add: x_def xtr_def ytr_def y_def)
  show ?thesis
    apply (rule exI[of _ x])
    apply (rule exI[of _ y])
    apply (rule exI[of _ xtr])
    apply (rule exI[of _ ytr])
    using c k b(1) t by simp
qed

section \<open>The type codes\<close>

text \<open>
  C4. In a fresh kernel, for every pair of input files: cell 19 converts the \<open>type\<close> column
  of \<open>df\<close>, a name that is not bound, and raises \<open>NameError\<close>; so the \<open>type\<close> column of
  \<open>adshex\<close> is not categorical, cell 21 raises and leaves the state as it was, and no
  \<open>type_code\<close> column is made. In the small session the tables the classifiers are
  fitted on and the table that is scored have the one column \<open>duration\<close>.
\<close>

theorem type_codes_never_computed:
  "exec cell19 (run_cells [cell4, cell5, cell8, cell14] (fresh fs))
     = (run_cells [cell4, cell5, cell8, cell14] (fresh fs), Some NameError)
   \<and> fst (exec cell21 (run_cells [cell4, cell5, cell8, cell14, cell19] (fresh fs)))
       = run_cells [cell4, cell5, cell8, cell14] (fresh fs)
   \<and> snd (exec cell21 (run_cells [cell4, cell5, cell8, cell14, cell19] (fresh fs)))
       \<in> {Some NameError, Some AttributeError}
   \<and> env (example_session 6) ''adshex'' = Some (Frame example_adshex)
   \<and> snd (exec cell21 (example_session 5)) = Some AttributeError
   \<and> env (example_session 11) ''X''
       = Some (Frame \<lparr>columns = [''duration''], categorical = [],
             rows = [(0, [Num 3]), (1, [Num 9]), (3, [Num 1]), (7, [Num 8]), (8, [Num 4]), (9, [Num 2])]\<rparr>)
   \<and> env (example_session 24) ''X''
       = Some (Frame \<lparr>columns = [''duration''], categorical = [],
             rows = [(4, [Num 7]), (5, [Num 6]), (6, [Num 2])]\<rparr>)"
proof -
  define s where "s = run_cells [cell4, cell5, cell8, cell14] (fresh fs)"
  have inv: "no_categories s"
    unfolding s_def
    by (simp add: run_cells_Cons run_cells_Nil no_categories_fresh no_categories_cell4
        no_categories_cell5 no_categories_cell8 no_categories_cell14)
  have r19: "exec cell19 s = (s, Some NameError)"
    using inv by (rule cell19_raises)
  have "run_cells [cell4, cell5, cell8, cell14, cell19] (fresh fs) = fst (exec cell19 s)"
    using run_cells_append[of "[cell4, cell5, cell8, cell14]" "[cell19]" "fresh fs"]
    by (simp add: s_def run_cells_Cons run_cells_Nil)
  then have s5: "run_cells [cell4, cell5, cell8, cell14, cell19] (fresh fs) = s"
    by (simp add: r19)
  note r21 = cell21_raises[OF inv]
  have e1: "env (example_session 6) ''adshex'' = Some (Frame example_adshex)"
    by (rule example_adshex_bound)
  have e2: "snd (exec cell21 (example_session 5)) = Some AttributeError"
    by code_simp
  have e3: "env (example_session 11) ''X''
       = Some (Frame \<lparr>columns = [''duration''], categorical = [],
             rows = [(0, [Num 3]), (1, [Num 9]), (3, [Num 1]), (7, [Num 8]), (8, [Num 4]), (9, [Num 2])]\<rparr>)"
    by code_simp
  have e4: "env (example_session 24) ''X''
       = Some (Frame \<lparr>columns = [''duration''], categorical = [],
             rows = [(4, [Num 7]), (5, [Num 6]), (6, [Num 2])]\<rparr>)"
    by code_simp
  show ?thesis
    unfolding s5 s_def[symmetric]
    using r19 r21 e1 e2 e3 e4 by simp
qed

text \<open>
  X1. What cell 21 does once the \<open>type\<close> column of \<open>adshex\<close> is categorical (as after
  \<open>astype('category')\<close> on \<open>adshex\<close> itself): it appends the column \<open>type_code\<close>, each row's
  code being the position of its type among the categories fixed by the conversion, so
  that two values with the same code are the same category; and every row of the
  training table of cell 26 and of the table of unlabeled rows of cell 76 carries the
  code its type has in that one list of categories. The encoding is computed once, on
  the merged table, and not again for scoring.
\<close>

theorem type_codes_shared_when_categorical:
  assumes made: "astype_category ''type'' a0 = Inr a"
      and bound: "env st ''adshex'' = Some (Frame a)"
      and wf: "wf_frame a0"
      and k: "index_of ''type'' (columns a0) = Some k"
      and j: "index_of ''label'' (columns a0) = Some j"
      and new: "''type_code'' \<notin> set (columns a0)"
  shows "\<exists>cats b t n.
           cats = categories (map (\<lambda>r. snd r ! k) (rows a0))
         \<and> exec cell21 st = (st\<lparr>env := (env st)(''adshex'' \<mapsto> Frame b)\<rparr>, None)
         \<and> columns b = columns a0 @ [''type_code'']
         \<and> rows b = map (\<lambda>r. (fst r, snd r @ [cat_code cats (snd r ! k)])) (rows a0)
         \<and> (\<forall>u v. u \<in> set cats \<and> cat_code cats u = cat_code cats v \<longrightarrow> u = v)
         \<and> env (run_cells [cell21, cell26] st) ''train_df'' = Some (Frame t)
         \<and> env (run_cells ([cell21, cell26] @ training_cells L @ [cell76]) st) ''new_df'' = Some (Frame n)
         \<and> (\<forall>r \<in> set (rows t) \<union> set (rows n).
               snd r ! length (columns a0) = cat_code cats (snd r ! k))"
proof -
  define cats where "cats = categories (map (\<lambda>r. snd r ! k) (rows a0))"
  from astype_category_effect[OF made k]
  have ca: "columns a = columns a0" and ra: "rows a = rows a0"
    and ma: "map_of (categorical a) ''type'' = Some cats"
    by (simp_all add: cats_def)
  define b where "b = a\<lparr>columns := columns a0 @ [''type_code''],
      rows := map (\<lambda>r. (fst r, snd r @ [cat_code cats (snd r ! k)])) (rows a0)\<rparr>"
  have codes: "cat_codes ''type'' a = Inr (map (\<lambda>r. cat_code cats (snd r ! k)) (rows a0))"
    using k ma by (simp add: cat_codes_def get_column_def ca ra o_def)
  have z: "map (\<lambda>p. (fst (fst p), snd (fst p) @ [snd p]))
             (zip (rows a0) (map (\<lambda>r. cat_code cats (snd r ! k)) (rows a0)))
           = map (\<lambda>r. (fst r, snd r @ [cat_code cats (snd r ! k)])) (rows a0)"
    using map_zip_self[of "\<lambda>r v. (fst r, snd r @ [v])" "rows a0" "\<lambda>r. cat_code cats (snd r ! k)"]
    by simp
  have sc: "set_column ''type_code'' (map (\<lambda>r. cat_code cats (snd r ! k)) (rows a0)) a = Inr b"
    using new z by (simp add: set_column_def ca ra index_of_None b_def)
  have r21: "exec cell21 st = (st\<lparr>env := (env st)(''adshex'' \<mapsto> Frame b)\<rparr>, None)"
    using bound codes sc by (simp add: cell21_def assign_def and_then_def get_frame_def)
  define s1 where "s1 = st\<lparr>env := (env st)(''adshex'' \<mapsto> Frame b)\<rparr>"
  define s2 where "s2 = fst (exec cell26 s1)"
  define s3 where "s3 = run_cells (training_cells L) s2"
  define s4 where "s4 = fst (exec cell76 s3)"
  have b1: "env s1 ''adshex'' = Some (Frame b)"
    by (simp add: s1_def)
  have e2: "s2 = s1\<lparr>env := (env s1)(''train_df'' \<mapsto> Frame (dropna b))\<rparr>"
    using cell26_effect[OF b1] by (simp add: s2_def)
  have b3: "env s3 ''adshex'' = Some (Frame b)"
    unfolding s3_def
    using training_cells_keep_adshex run_cells_env_preserved[of "training_cells L" "''adshex''" s2]
    by (simp add: e2 b1)
  have jb: "index_of ''label'' (columns b) = Some j"
    using j by (simp add: b_def index_of_append)
  define n where "n = b\<lparr>rows := filter (\<lambda>r. snd r ! j = NaN) (rows b)\<rparr>"
  have e4: "env s4 ''new_df'' = Some (Frame n)"
    using b3 jb
    by (simp add: s4_def cell76_def assign_def and_then_def get_frame_def where_isnull_def n_def)
  have run2: "run_cells [cell21, cell26] st = s2"
    by (simp add: run_cells_Cons run_cells_Nil r21 s1_def s2_def)
  have run4: "run_cells ([cell21, cell26] @ training_cells L @ [cell76]) st = s4"
    by (simp add: run_cells_append run_cells_Cons run_cells_Nil r21 s1_def s2_def s3_def s4_def)
  have kl: "k < length (columns a0)"
    using index_of_lt[OF k] by simp
  have rowb: "snd r ! length (columns a0) = cat_code cats (snd r ! k)" if "r \<in> set (rows b)" for r
  proof -
    from that obtain r0 where r0: "r0 \<in> set (rows a0)"
      and r: "r = (fst r0, snd r0 @ [cat_code cats (snd r0 ! k)])"
      by (auto simp: b_def)
    have "length (snd r0) = length (columns a0)"
      using wf r0 by (rule wf_frame_row)
    then show ?thesis
      using kl by (simp add: r nth_append)
  qed
  have sub: "set (rows (dropna b)) \<union> set (rows n) \<subseteq> set (rows b)"
    by (auto simp: rows_dropna n_def)
  have inj: "\<forall>u v. u \<in> set cats \<and> cat_code cats u = cat_code cats v \<longrightarrow> u = v"
    using cat_code_injective by blast
  have t2: "env s2 ''train_df'' = Some (Frame (dropna b))"
    by (simp add: e2)
  have all: "\<forall>r \<in> set (rows (dropna b)) \<union> set (rows n).
               snd r ! length (columns a0) = cat_code cats (snd r ! k)"
    using sub rowb by blast
  show ?thesis
    apply (rule exI[of _ cats])
    apply (rule exI[of _ b])
    apply (rule exI[of _ "dropna b"])
    apply (rule exI[of _ n])
    unfolding run2 run4
    apply (intro conjI)
           apply (rule cats_def)
          apply (rule r21)
         apply (simp add: b_def)
        apply (simp add: b_def)
       apply (rule inj)
      apply (rule t2)
     apply (rule e4)
    apply (rule all)
    done
qed


text \<open>The codes of the small session: \<open>B350\<close> is 0, \<open>C182\<close> is 1, and a missing type is -1.\<close>

theorem type_codes_shared_when_categorical_witness:
  "\<exists>b.
      env (fst (exec cell21 ((example_session 5)\<lparr>env :=
             (env (example_session 5))(''adshex'' \<mapsto> Frame example_categorical)\<rparr>))) ''adshex''
        = Some (Frame b)
    \<and> map snd (rows b) =
        [[Str ''A1'', Num 3, Str ''C182'', Num 0, Num 1],
         [Str ''A2'', Num 9, Str ''T206'', Num 1, Num 4],
         [Str ''A3'', Num 5, NaN, Num 1, Num (- 1)],
         [Str ''A4'', Num 1, Str ''C182'', Num 0, Num 1],
         [Str ''A5'', Num 7, Str ''SR22'', NaN, Num 3],
         [Str ''A6'', Num 6, Str ''B350'', NaN, Num 0],
         [Str ''A7'', Num 2, Str ''C182'', NaN, Num 1],
         [Str ''A8'', Num 8, Str ''T206'', Num 1, Num 4],
         [Str ''A9'', Num 4, Str ''C182'', Num 1, Num 1],
         [Str ''A10'', Num 2, Str ''PC12'', Num 0, Num 2]]"
proof -
  define st where "st = (example_session 5)\<lparr>env :=
             (env (example_session 5))(''adshex'' \<mapsto> Frame example_categorical)\<rparr>"
  have made: "astype_category ''type'' example_adshex = Inr example_categorical"
    unfolding example_categorical_def by code_simp
  have bound: "env st ''adshex'' = Some (Frame example_categorical)"
    by (simp add: st_def)
  have h: "wf_frame example_adshex" "index_of ''type'' (columns example_adshex) = Some 2"
    "index_of ''label'' (columns example_adshex) = Some 3"
    "''type_code'' \<notin> set (columns example_adshex)"
    by (simp_all add: example_adshex_def wf_frame_def)
  have c: "categories (map (\<lambda>r. snd r ! 2) (rows example_adshex))
           = [Str ''B350'', Str ''C182'', Str ''PC12'', Str ''SR22'', Str ''T206'']"
    by code_simp
  from type_codes_shared_when_categorical[OF made bound h, of example_lib] obtain cats b where
    A: "cats = categories (map (\<lambda>r. snd r ! 2) (rows example_adshex))"
       "exec cell21 st = (st\<lparr>env := (env st)(''adshex'' \<mapsto> Frame b)\<rparr>, None)"
       "rows b = map (\<lambda>r. (fst r, snd r @ [cat_code cats (snd r ! 2)])) (rows example_adshex)"
    by (elim exE conjE) (rule that)
  have m: "map snd (rows b) =
        [[Str ''A1'', Num 3, Str ''C182'', Num 0, Num 1],
         [Str ''A2'', Num 9, Str ''T206'', Num 1, Num 4],
         [Str ''A3'', Num 5, NaN, Num 1, Num (- 1)],
         [Str ''A4'', Num 1, Str ''C182'', Num 0, Num 1],
         [Str ''A5'', Num 7, Str ''SR22'', NaN, Num 3],
         [Str ''A6'', Num 6, Str ''B350'', NaN, Num 0],
         [Str ''A7'', Num 2, Str ''C182'', NaN, Num 1],
         [Str ''A8'', Num 8, Str ''T206'', Num 1, Num 4],
         [Str ''A9'', Num 4, Str ''C182'', Num 1, Num 1],
         [Str ''A10'', Num 2, Str ''PC12'', Num 0, Num 2]]"
    unfolding A(3) A(1) c by (simp add: example_adshex_def cat_code_def)
  have e: "env (fst (exec cell21 st)) ''adshex'' = Some (Frame b)"
    by (simp add: A(2))
  show ?thesis
    by (rule exI[of _ b]) (rule conjI[OF e[unfolded st_def] m])
qed

end
